theory Spec2Isabelle
  imports Complex_Main
begin

section \<open>Noble Chain wallet: numbers, data model and PIN storage\<close>

text \<open>
  The embedding follows the class \<open>NobleChain\<close>. The object's in-memory fields
  (\<open>currentUser\<close>, \<open>users\<close>, \<open>wallets\<close>, \<open>transactions\<close>, \<open>marketData\<close>) and the
  browser storage entries it reads and writes on every call (the PIN table, the
  e-mail log, the notification list) are the fields of one state record; every method
  takes the state and returns its result together with the state it leaves behind. A
  thrown exception is an \<open>Inl\<close> result; the state beside it is what the method had
  already written when it threw.

  Not modelled: values drawn from \<open>Date.now()\<close> and \<open>Math.random()\<close> (timestamps
  and the identifiers of transactions and notifications; \<open>signup\<close> takes the new
  user's identifier as an argument), DOM events, the text of e-mail and notification
  bodies, the copies \<open>saveUsers\<close>, \<open>saveWallets\<close> and \<open>saveTransactions\<close> write
  to storage, and calls with arguments of another type than the method is written for
  (an amount or a price is a number, a PIN or a password a string).

  A JavaScript object used as a dictionary is the map of its own properties. A lookup
  \<open>obj[k]\<close> is a lookup in that map, which is what JavaScript does for every key
  \<open>k\<close> that is not the name of a property all objects inherit from
  \<open>Object.prototype\<close> (\<open>constructor\<close>, \<open>toString\<close>, \<open>__proto__\<close> and the others
  listed as \<open>inherited_names\<close> below), \<open>Object.prototype\<close> itself being as the
  language defines it. The properties below say where they assume this of a key.
\<close>

subsection \<open>JavaScript numbers\<close>

text \<open>
  A JavaScript number is an IEEE 754 binary64 value: finite, \<open>Infinity\<close>,
  \<open>-Infinity\<close> or \<open>NaN\<close>. A finite value is kept as the rational it denotes, and
  every arithmetic operation rounds its exact result to the nearest binary64 value,
  ties to even, overflowing to an infinity. The two zeros are one value here: the
  modelled methods compare with \<open><\<close> and \<open>===\<close>, which do not tell them apart,
  and divide by a zero only where the result does not depend on its sign (the swap
  divides by a price that \<open>|| 0\<close> has made \<open>+0\<close>; elsewhere a zero divisor comes
  with a zero or \<open>NaN\<close> dividend).
\<close>

datatype jsnum = Fin rat | PInf | NInf | NaN

text \<open>\<open>lg2 n\<close> is the integer part of the binary logarithm of \<open>n >= 1\<close>.\<close>

function lg2 :: "int \<Rightarrow> int" where
  "lg2 n = (if n < 2 then 0 else 1 + lg2 (n div 2))"
  by pat_completeness auto
termination
  by (relation "measure nat") auto

declare lg2.simps [simp del]

definition pow2 :: "int \<Rightarrow> rat" where
  "pow2 e = (if 0 \<le> e then 2 ^ nat e else 1 / 2 ^ nat (- e))"

text \<open>
  The binary exponent of a positive rational \<open>p / q\<close>: the difference of the two
  logarithms, or one less.
\<close>

definition ilog2 :: "rat \<Rightarrow> int" where
  "ilog2 r =
     (let e0 = lg2 (fst (quotient_of r)) - lg2 (snd (quotient_of r))
      in if pow2 e0 \<le> r then e0 else e0 - 1)"

text \<open>The nearest integer, the even one of two that are equally near.\<close>

definition round_even :: "rat \<Rightarrow> int" where
  "round_even x =
     (let f = \<lfloor>x\<rfloor>; d = x - of_int f
      in if d < 1 / 2 then f else if 1 / 2 < d then f + 1 else if even f then f else f + 1)"

text \<open>
  Rounding to binary64: 53 significant bits, exponents from \<open>-1022\<close> (below it the
  spacing stays \<open>2^-1074\<close>) to \<open>1023\<close>; a result that would need the exponent
  \<open>1024\<close> is an infinity.
\<close>

definition round64 :: "rat \<Rightarrow> jsnum" where
  "round64 r =
     (if r = 0 then Fin 0
      else
        (let e = max (ilog2 \<bar>r\<bar>) (- 1022);
             q = pow2 (e - 52);
             n = round_even (\<bar>r\<bar> / q)
         in if 1024 \<le> e \<or> (e = 1023 \<and> n = 2 ^ 53) then (if 0 < r then PInf else NInf)
            else Fin (if 0 < r then of_int n * q else - (of_int n * q))))"

fun jneg :: "jsnum \<Rightarrow> jsnum" where
  "jneg (Fin a) = Fin (- a)"
| "jneg PInf = NInf"
| "jneg NInf = PInf"
| "jneg NaN = NaN"

fun jadd :: "jsnum \<Rightarrow> jsnum \<Rightarrow> jsnum" where
  "jadd NaN _ = NaN"
| "jadd _ NaN = NaN"
| "jadd (Fin a) (Fin b) = round64 (a + b)"
| "jadd PInf NInf = NaN"
| "jadd NInf PInf = NaN"
| "jadd PInf _ = PInf"
| "jadd NInf _ = NInf"
| "jadd (Fin a) b = b"

definition jsub :: "jsnum \<Rightarrow> jsnum \<Rightarrow> jsnum" where
  "jsub a b = jadd a (jneg b)"

text \<open>The sign of a number that is not \<open>NaN\<close>: \<open>-1\<close>, \<open>0\<close> or \<open>1\<close>.\<close>

fun jsign :: "jsnum \<Rightarrow> int" where
  "jsign (Fin a) = (if a < 0 then - 1 else if a = 0 then 0 else 1)"
| "jsign PInf = 1"
| "jsign NInf = - 1"
| "jsign NaN = 0"

definition inf_of_sign :: "int \<Rightarrow> jsnum" where
  "inf_of_sign k = (if k = 0 then NaN else if k < 0 then NInf else PInf)"

fun jmul :: "jsnum \<Rightarrow> jsnum \<Rightarrow> jsnum" where
  "jmul NaN _ = NaN"
| "jmul _ NaN = NaN"
| "jmul (Fin a) (Fin b) = round64 (a * b)"
| "jmul a b = inf_of_sign (jsign a * jsign b)"

fun jdiv :: "jsnum \<Rightarrow> jsnum \<Rightarrow> jsnum" where
  "jdiv NaN _ = NaN"
| "jdiv _ NaN = NaN"
| "jdiv (Fin a) (Fin b) = (if b = 0 then inf_of_sign (jsign (Fin a)) else round64 (a / b))"
| "jdiv (Fin a) _ = Fin 0"
| "jdiv PInf (Fin b) = (if b < 0 then NInf else PInf)"
| "jdiv NInf (Fin b) = (if b < 0 then PInf else NInf)"
| "jdiv _ _ = NaN"

text \<open>\<open>a < b\<close>: false as soon as one side is \<open>NaN\<close>.\<close>

fun jlt :: "jsnum \<Rightarrow> jsnum \<Rightarrow> bool" where
  "jlt NaN _ = False"
| "jlt _ NaN = False"
| "jlt (Fin a) (Fin b) = (a < b)"
| "jlt NInf b = (b \<noteq> NInf)"
| "jlt a PInf = (a \<noteq> PInf)"
| "jlt _ _ = False"

text \<open>\<open>a >= b\<close>, used to state properties; the code itself only uses \<open><\<close>.\<close>

fun jge :: "jsnum \<Rightarrow> jsnum \<Rightarrow> bool" where
  "jge NaN _ = False"
| "jge _ NaN = False"
| "jge a b = (\<not> jlt a b)"

text \<open>Truthiness of a number: \<open>0\<close> and \<open>NaN\<close> are falsy.\<close>

definition truthy_num :: "jsnum \<Rightarrow> bool" where
  "truthy_num x = (x \<noteq> Fin 0 \<and> x \<noteq> NaN)"

text \<open>Truthiness of a string that may be \<open>null\<close>: \<open>null\<close> and \<open>''\<close> are falsy.\<close>

definition truthy_str :: "'a list option \<Rightarrow> bool" where
  "truthy_str x = (case x of None \<Rightarrow> False | Some t \<Rightarrow> t \<noteq> [])"

subsection \<open>Records of the application\<close>

text \<open>The fields of a user that the modelled methods read or write.\<close>

record user =
  user_id :: string
  email :: string
  username :: string
  passwordHash :: string
  transferPinHash :: "string option"
  hasLoggedInBefore :: bool

record asset_position =
  balance :: jsnum
  averageCost :: jsnum

record wallet =
  userId :: string
  dollarBalance :: jsnum
  assets :: "string \<rightharpoonup> asset_position"
  totalValue :: jsnum

datatype metadata =
    NoMeta
  | BuyMeta jsnum jsnum
  | SellMeta jsnum jsnum
  | SwapMeta string jsnum jsnum

record tx =
  tx_userId :: string
  tx_type :: string
  tx_asset :: string
  tx_amount :: jsnum
  tx_counterparty :: "string option"
  tx_status :: string
  tx_metadata :: metadata

record pin_data =
  pin_userId :: string
  pinHash :: "string option"
  mustSetPin :: bool
  resetBy :: "string option"

record market_entry =
  name :: string
  symbol :: string
  price :: jsnum
  change :: jsnum

record admin_entry =
  action :: string
  log_userId :: string
  success :: "bool option"
  log_adminId :: "string option"

record email_entry =
  email_to :: string
  email_type :: string
  email_subject :: string

record notification =
  note_title :: string
  note_type :: string
  note_read :: bool

record state =
  currentUser :: "user option"
  users :: "user list"
  wallets :: "string \<rightharpoonup> wallet"
  transactions :: "tx list"
  marketData :: "string \<rightharpoonup> market_entry"
  pins :: "string \<rightharpoonup> pin_data"
  adminLog :: "admin_entry list"
  emailLogs :: "email_entry list"
  notifications :: "notification list"

text \<open>
  Every exception the modelled methods throw is \<open>new Error(message)\<close>, kept with its
  message, the \<open>TypeError\<close> of reading a property of \<open>null\<close> or \<open>undefined\<close>, or
  the \<open>InvalidCharacterError\<close> of \<open>btoa\<close>.
\<close>

datatype error = Error string | TypeError | InvalidCharacterError

type_synonym 'a result = "(error + 'a) \<times> state"

subsection \<open>Utility functions\<close>

definition b64_alphabet :: string where
  "b64_alphabet = ''ABCDEFGHIJKLMNOPQRSTUVWXYZabcdefghijklmnopqrstuvwxyz0123456789+/''"

definition b64_digit :: "nat \<Rightarrow> char" where
  "b64_digit n = b64_alphabet ! (n mod 64)"

text \<open>
  A string that reaches \<open>btoa\<close> (a PIN, a password) is the list of its UTF-16 code
  units; \<open>units\<close> gives the code units of a text of one-byte characters. All other
  strings are only stored and compared.
\<close>

type_synonym jsstring = "nat list"

definition units :: "string \<Rightarrow> jsstring" where
  "units t = map of_char t"

text \<open>Base64 of a list of byte values, with \<open>=\<close> padding.\<close>

fun b64_bytes :: "nat list \<Rightarrow> string" where
  "b64_bytes [] = []"
| "b64_bytes [a] =
     [b64_digit (a div 4), b64_digit ((a mod 4) * 16), CHR ''='', CHR ''='']"
| "b64_bytes [a, b] =
     [b64_digit (a div 4), b64_digit ((a mod 4) * 16 + b div 16),
      b64_digit ((b mod 16) * 4), CHR ''='']"
| "b64_bytes (a # b # c # rest) =
     [b64_digit (a div 4), b64_digit ((a mod 4) * 16 + b div 16),
      b64_digit ((b mod 16) * 4 + c div 64), b64_digit (c mod 64)] @ b64_bytes rest"

text \<open>\<open>btoa\<close> throws on a code unit above 255.\<close>

definition btoa :: "jsstring \<Rightarrow> error + string" where
  "btoa t = (if list_all (\<lambda>u. u \<le> 255) t then Inr (b64_bytes t) else Inl InvalidCharacterError)"

definition hashPassword :: "jsstring \<Rightarrow> error + string" where
  "hashPassword password =
     (case btoa password of Inl e \<Rightarrow> Inl e | Inr t \<Rightarrow> Inr (rev t))"

text \<open>\<open>users.find(u => u.id === userId)\<close> and \<open>users.find(u => u.username === n)\<close>.\<close>

definition find_by_id :: "user list \<Rightarrow> string \<Rightarrow> user option" where
  "find_by_id us i = find (\<lambda>u. user_id u = i) us"

definition find_by_username :: "user list \<Rightarrow> string \<Rightarrow> user option" where
  "find_by_username us n = find (\<lambda>u. username u = n) us"

text \<open>Writing a field of the object \<open>find\<close> returned: the first match changes.\<close>

fun update_first :: "('a \<Rightarrow> bool) \<Rightarrow> ('a \<Rightarrow> 'a) \<Rightarrow> 'a list \<Rightarrow> 'a list" where
  "update_first p f [] = []"
| "update_first p f (x # xs) = (if p x then f x # xs else x # update_first p f xs)"

subsection \<open>E-mail notifications and the administrator's log\<close>

definition getEmailSubject :: "string \<Rightarrow> string" where
  "getEmailSubject t =
     (if t = ''login_success'' then ''Successful Login to Noble Chain''
      else if t = ''new_device_login'' then ''New Device Login Detected''
      else if t = ''password_reset'' then ''Password Reset Request''
      else if t = ''transfer_sent'' then ''Transfer Sent Successfully''
      else if t = ''transfer_received'' then ''Transfer Received''
      else if t = ''pin_changed'' then ''Transfer PIN Changed''
      else if t = ''new_user'' then ''New User Registration''
      else ''Noble Chain Notification'')"

text \<open>\<open>emailLogs.splice(0, emailLogs.length - 100)\<close>: the last hundred entries stay.\<close>

definition keep_last :: "nat \<Rightarrow> 'a list \<Rightarrow> 'a list" where
  "keep_last n xs = (if length xs > n then drop (length xs - n) xs else xs)"

definition sendEmailNotification :: "state \<Rightarrow> string \<Rightarrow> string \<Rightarrow> state" where
  "sendEmailNotification s uid t =
     (case find_by_id (users s) uid of
        None \<Rightarrow> s
      | Some u \<Rightarrow>
          s\<lparr>emailLogs :=
              keep_last 100
                (emailLogs s @
                 [\<lparr>email_to = email u, email_type = t,
                   email_subject = getEmailSubject t\<rparr>])\<rparr>)"

text \<open>
  Modelled from the spec: \<open>logAdminAction\<close> is called by \<open>verifyTransferPin\<close> and
  \<open>resetTransferPin\<close> and its body is not among the source files. The specification's
  \<open>AdminAuditSink.log(action, payload)\<close> "records administrator-initiated PIN resets and
  PIN verification attempts"; PIN attempt logging is "append-only".
\<close>

definition logAdminAction :: "state \<Rightarrow> admin_entry \<Rightarrow> state" where
  "logAdminAction s e = s\<lparr>adminLog := adminLog s @ [e]\<rparr>"

subsection \<open>Transfer PIN system\<close>

definition createPinEntry :: "state \<Rightarrow> string \<Rightarrow> pin_data \<times> state" where
  "createPinEntry s uid =
     (let pinData = \<lparr>pin_userId = uid, pinHash = None, mustSetPin = True, resetBy = None\<rparr>
      in (pinData, s\<lparr>pins := (pins s)(uid \<mapsto> pinData)\<rparr>))"




definition verifyTransferPin :: "state \<Rightarrow> string \<Rightarrow> jsstring \<Rightarrow> bool result" where
  "verifyTransferPin s uid pin =
     (case pins s uid of
        None \<Rightarrow> (Inl (Error ''Transfer PIN not set''), s)
      | Some pd \<Rightarrow>
          if \<not> truthy_str (pinHash pd) then (Inl (Error ''Transfer PIN not set''), s)
          else
            (case hashPassword pin of
               Inl e \<Rightarrow> (Inl e, s)
             | Inr h \<Rightarrow>
                 (let isValid = (Some h = pinHash pd);
                      s1 = logAdminAction s
                             \<lparr>action = ''pin_verification'', log_userId = uid,
                              success = Some isValid, log_adminId = None\<rparr>
                  in if \<not> isValid
                     then (Inl (Error ''Invalid Transfer PIN''),
                           sendEmailNotification s1 uid ''pin_failed'')
                     else (Inr True, s1))))"

definition resetTransferPin :: "state \<Rightarrow> string \<Rightarrow> string \<Rightarrow> bool result" where
  "resetTransferPin s uid adminId =
     (let s1 = (case pins s uid of
                  None \<Rightarrow> s
                | Some pd \<Rightarrow>
                    s\<lparr>pins := (pins s)(uid \<mapsto>
                         pd\<lparr>pinHash := None, mustSetPin := True, resetBy := Some adminId\<rparr>)\<rparr>);
          s2 = s1\<lparr>users :=
                 update_first (\<lambda>u. user_id u = uid)
                   (\<lambda>u. u\<lparr>transferPinHash := None\<rparr>) (users s1)\<rparr>;
          s3 = logAdminAction s2
                 \<lparr>action = ''pin_reset'', log_userId = uid,
                  success = None, log_adminId = Some adminId\<rparr>
      in (Inr True, sendEmailNotification s3 uid ''pin_changed''))"

text \<open>\<open>pinData && pinData.pinHash && !pinData.mustSetPin\<close>, read as a condition.\<close>

definition hasTransferPin :: "state \<Rightarrow> string \<Rightarrow> bool" where
  "hasTransferPin s uid =
     (case pins s uid of
        None \<Rightarrow> False
      | Some pd \<Rightarrow> truthy_str (pinHash pd) \<and> \<not> mustSetPin pd)"

definition mustSetTransferPin :: "state \<Rightarrow> string \<Rightarrow> bool" where
  "mustSetTransferPin s uid =
     (case pins s uid of None \<Rightarrow> False | Some pd \<Rightarrow> mustSetPin pd)"

section \<open>Wallet operations and transactions\<close>

text \<open>
  \<open>userId || this.currentUser?.id\<close>, as a key of \<open>this.wallets\<close>: without a current
  user the key is the text of \<open>undefined\<close>.
\<close>

definition current_key :: "state \<Rightarrow> string" where
  "current_key s = (case currentUser s of None \<Rightarrow> ''undefined'' | Some u \<Rightarrow> user_id u)"

definition wallet_key :: "state \<Rightarrow> string option \<Rightarrow> string" where
  "wallet_key s uid =
     (case uid of
        None \<Rightarrow> current_key s
      | Some u \<Rightarrow> if u \<noteq> [] then u else current_key s)"

definition getWallet :: "state \<Rightarrow> string option \<Rightarrow> wallet option" where
  "getWallet s uid = wallets s (wallet_key s uid)"

text \<open>
  The object at \<open>wallet.assets[assetId]\<close> once
  \<open>if (!wallet.assets[assetId]) wallet.assets[assetId] = { balance: 0, averageCost: 0 }\<close>
  has run.
\<close>

definition position_or_new :: "(string \<rightharpoonup> asset_position) \<Rightarrow> string \<Rightarrow> asset_position" where
  "position_or_new a k =
     (case a k of None \<Rightarrow> \<lparr>balance = Fin 0, averageCost = Fin 0\<rparr> | Some p \<Rightarrow> p)"

definition addAsset :: "state \<Rightarrow> string \<Rightarrow> string \<Rightarrow> unit result" where
  "addAsset s uid assetId =
     (case getWallet s (Some uid) of
        None \<Rightarrow> (Inl TypeError, s)
      | Some w \<Rightarrow>
          (Inr (),
           s\<lparr>wallets := (wallets s)(wallet_key s (Some uid) \<mapsto>
                w\<lparr>assets := (assets w)(assetId \<mapsto> position_or_new (assets w) assetId)\<rparr>)\<rparr>))"

definition removeAsset :: "state \<Rightarrow> string \<Rightarrow> string \<Rightarrow> unit result" where
  "removeAsset s uid assetId =
     (case getWallet s (Some uid) of
        None \<Rightarrow> (Inl TypeError, s)
      | Some w \<Rightarrow>
          (Inr (),
           s\<lparr>wallets := (wallets s)(wallet_key s (Some uid) \<mapsto>
                w\<lparr>assets := (assets w)(assetId := None)\<rparr>)\<rparr>))"

text \<open>\<open>list.unshift(note); if (list.length > 100) list.splice(100)\<close>\<close>

definition addNotification :: "state \<Rightarrow> string \<Rightarrow> string \<Rightarrow> state" where
  "addNotification s title t =
     s\<lparr>notifications :=
         take 100 (\<lparr>note_title = title, note_type = t, note_read = False\<rparr> # notifications s)\<rparr>"

definition underscores_to_spaces :: "string \<Rightarrow> string" where
  "underscores_to_spaces t = map (\<lambda>c. if c = CHR ''_'' then CHR '' '' else c) t"

definition createTransaction ::
  "state \<Rightarrow> string \<Rightarrow> string \<Rightarrow> jsnum \<Rightarrow> string option \<Rightarrow> string option \<Rightarrow> metadata \<Rightarrow> tx result"
where
  "createTransaction s type asset amount counterparty uid meta =
     (case (if truthy_str uid then uid else map_option user_id (currentUser s)) of
        None \<Rightarrow> (Inl TypeError, s)
      | Some owner \<Rightarrow>
          (let t = \<lparr>tx_userId = owner, tx_type = type, tx_asset = asset, tx_amount = amount,
                    tx_counterparty = counterparty, tx_status = ''completed'',
                    tx_metadata = meta\<rparr>;
               s1 = s\<lparr>transactions := transactions s @ [t]\<rparr>
           in (Inr t,
               addNotification s1 (''Transaction: '' @ underscores_to_spaces type)
                 ''transaction'')))"

text \<open>Sequencing: an exception ends the method with the state reached so far.\<close>

definition bind_r :: "'a result \<Rightarrow> ('a \<Rightarrow> state \<Rightarrow> 'b result) \<Rightarrow> 'b result" where
  "bind_r r f = (case r of (Inl e, s) \<Rightarrow> (Inl e, s) | (Inr v, s) \<Rightarrow> f v s)"

text \<open>\<open>this.marketData[assetId]?.price || 0\<close>\<close>

definition market_price :: "state \<Rightarrow> string \<Rightarrow> jsnum" where
  "market_price s assetId =
     (case marketData s assetId of
        None \<Rightarrow> Fin 0
      | Some e \<Rightarrow> if truthy_num (price e) then price e else Fin 0)"

text \<open>\<open>price || this.marketData[assetId]?.price || 0\<close>\<close>

definition unit_price :: "state \<Rightarrow> string \<Rightarrow> jsnum option \<Rightarrow> jsnum" where
  "unit_price s assetId p =
     (case p of
        None \<Rightarrow> market_price s assetId
      | Some x \<Rightarrow> if truthy_num x then x else market_price s assetId)"

definition receiveMoney :: "state \<Rightarrow> jsnum \<Rightarrow> string \<Rightarrow> tx result" where
  "receiveMoney s amount assetId =
     (case getWallet s None of
        None \<Rightarrow> (Inl TypeError, s)
      | Some w \<Rightarrow>
          (let w1 = (if assetId = ''USD''
                     then w\<lparr>dollarBalance := jadd (dollarBalance w) amount\<rparr>
                     else w\<lparr>assets := (assets w)(assetId \<mapsto>
                            (position_or_new (assets w) assetId)
                              \<lparr>balance := jadd (balance (position_or_new (assets w) assetId)) amount\<rparr>)\<rparr>);
               s1 = s\<lparr>wallets := (wallets s)(current_key s \<mapsto> w1)\<rparr>
           in createTransaction s1 ''receive'' assetId amount (Some ''Internal Transfer'')
                None NoMeta))"

text \<open>
  The opening block of \<open>sendMoney\<close> and of \<open>swapAssets\<close>, the same text in both:
  \<open>if (this.hasTransferPin(id)) { if (!pin) throw ...; this.verifyTransferPin(id, pin) }\<close>.
\<close>

definition pin_gate :: "state \<Rightarrow> string \<Rightarrow> jsstring option \<Rightarrow> bool result" where
  "pin_gate s uid pin =
     (if hasTransferPin s uid
      then (case pin of
              None \<Rightarrow> (Inl (Error ''Transfer PIN required for this transaction''), s)
            | Some p \<Rightarrow>
                if p = [] then (Inl (Error ''Transfer PIN required for this transaction''), s)
                else verifyTransferPin s uid p)
      else (Inr True, s))"

text \<open>The end of \<open>sendMoney\<close>: the two transactions, then the two e-mails.\<close>

definition send_records :: "state \<Rightarrow> user \<Rightarrow> user \<Rightarrow> jsnum \<Rightarrow> string \<Rightarrow> (tx \<times> tx) result" where
  "send_records s cu recipient amount assetId =
     bind_r (createTransaction s ''send'' assetId amount (Some (username recipient)) None NoMeta)
       (\<lambda>sendTx s1.
          bind_r (createTransaction s1 ''receive'' assetId amount (Some (username cu))
                    (Some (user_id recipient)) NoMeta)
            (\<lambda>receiveTx s2.
               (Inr (sendTx, receiveTx),
                sendEmailNotification
                  (sendEmailNotification s2 (user_id cu) ''transfer_sent'')
                  (user_id recipient) ''transfer_received'')))"

definition sendMoney ::
  "state \<Rightarrow> string \<Rightarrow> jsnum \<Rightarrow> string \<Rightarrow> jsstring option \<Rightarrow> (tx \<times> tx) result"
where
  "sendMoney s recipientUsername amount assetId pin =
     (case currentUser s of
        None \<Rightarrow> (Inl TypeError, s)
      | Some cu \<Rightarrow>
          bind_r (pin_gate s (user_id cu) pin)
            (\<lambda>_ s1.
               case find_by_username (users s1) recipientUsername of
                 None \<Rightarrow> (Inl (Error ''Recipient not found''), s1)
               | Some recipient \<Rightarrow>
                   (case getWallet s1 None of
                      None \<Rightarrow> (Inl TypeError, s1)
                    | Some senderWallet \<Rightarrow>
                        if assetId = ''USD'' then
                          if jlt (dollarBalance senderWallet) amount
                          then (Inl (Error ''Insufficient balance''), s1)
                          else
                            (let s2 = s1\<lparr>wallets := (wallets s1)(current_key s1 \<mapsto>
                                        senderWallet\<lparr>dollarBalance :=
                                          jsub (dollarBalance senderWallet) amount\<rparr>)\<rparr>
                             in case wallets s2 (user_id recipient) of
                                  None \<Rightarrow> (Inl TypeError, s2)
                                | Some rw \<Rightarrow>
                                    send_records
                                      (s2\<lparr>wallets := (wallets s2)(user_id recipient \<mapsto>
                                            rw\<lparr>dollarBalance := jadd (dollarBalance rw) amount\<rparr>)\<rparr>)
                                      cu recipient amount assetId)
                        else
                          (case assets senderWallet assetId of
                             None \<Rightarrow> (Inl (Error ''Insufficient asset balance''), s1)
                           | Some asset \<Rightarrow>
                               if jlt (balance asset) amount
                               then (Inl (Error ''Insufficient asset balance''), s1)
                               else
                                 (let s2 = s1\<lparr>wallets := (wallets s1)(current_key s1 \<mapsto>
                                             senderWallet\<lparr>assets := (assets senderWallet)(assetId \<mapsto>
                                               asset\<lparr>balance := jsub (balance asset) amount\<rparr>)\<rparr>)\<rparr>
                                  in case wallets s2 (user_id recipient) of
                                       None \<Rightarrow> (Inl TypeError, s2)
                                     | Some rw \<Rightarrow>
                                         send_records
                                           (s2\<lparr>wallets := (wallets s2)(user_id recipient \<mapsto>
                                                 rw\<lparr>assets := (assets rw)(assetId \<mapsto>
                                                   (position_or_new (assets rw) assetId)
                                                     \<lparr>balance :=
                                                        jadd (balance (position_or_new (assets rw) assetId))
                                                          amount\<rparr>)\<rparr>)\<rparr>)
                                           cu recipient amount assetId)))))"

definition buyAsset :: "state \<Rightarrow> string \<Rightarrow> jsnum \<Rightarrow> jsnum option \<Rightarrow> tx result" where
  "buyAsset s assetId amount p =
     (case getWallet s None of
        None \<Rightarrow> (Inl TypeError, s)
      | Some w \<Rightarrow>
          (let cost = jmul (unit_price s assetId p) amount
           in if jlt (dollarBalance w) cost
              then (Inl (Error ''Insufficient USD balance''), s)
              else
                (let asset = position_or_new (assets w) assetId;
                     totalCost = jadd (jmul (balance asset) (averageCost asset)) cost;
                     newBalance = jadd (balance asset) amount;
                     w1 = w\<lparr>dollarBalance := jsub (dollarBalance w) cost,
                            assets := (assets w)(assetId \<mapsto>
                              asset\<lparr>balance := newBalance,
                                    averageCost := jdiv totalCost newBalance\<rparr>)\<rparr>;
                     s1 = s\<lparr>wallets := (wallets s)(current_key s \<mapsto> w1)\<rparr>
                 in createTransaction s1 ''buy'' assetId amount None None
                      (BuyMeta cost (jdiv cost amount)))))"

definition sellAsset :: "state \<Rightarrow> string \<Rightarrow> jsnum \<Rightarrow> jsnum option \<Rightarrow> tx result" where
  "sellAsset s assetId amount p =
     (case getWallet s None of
        None \<Rightarrow> (Inl TypeError, s)
      | Some w \<Rightarrow>
          (case assets w assetId of
             None \<Rightarrow> (Inl (Error ''Insufficient asset balance''), s)
           | Some asset \<Rightarrow>
               if jlt (balance asset) amount
               then (Inl (Error ''Insufficient asset balance''), s)
               else
                 (let salePrice = unit_price s assetId p;
                      proceeds = jmul salePrice amount;
                      newBalance = jsub (balance asset) amount;
                      w1 = w\<lparr>dollarBalance := jadd (dollarBalance w) proceeds,
                             assets :=
                               (if newBalance = Fin 0 then (assets w)(assetId := None)
                                else (assets w)(assetId \<mapsto> asset\<lparr>balance := newBalance\<rparr>))\<rparr>;
                      s1 = s\<lparr>wallets := (wallets s)(current_key s \<mapsto> w1)\<rparr>
                  in createTransaction s1 ''sell'' assetId amount None None
                       (SellMeta proceeds salePrice))))"

text \<open>
  The balance updates of \<open>swapAssets\<close>, in the order of the source: the debit of the
  source position, the credit of the target position (created when absent), then the
  removal of the source position when the balance it holds by then is \<open>0\<close>. Source
  and target may be the same key, hence the same object.
\<close>

definition swap_positions ::
  "(string \<rightharpoonup> asset_position) \<Rightarrow> string \<Rightarrow> string \<Rightarrow> asset_position \<Rightarrow> jsnum \<Rightarrow> jsnum
    \<Rightarrow> (string \<rightharpoonup> asset_position)"
where
  "swap_positions a fromAssetId toAssetId fromAsset amount toAmount =
     (let a1 = a(fromAssetId \<mapsto> fromAsset\<lparr>balance := jsub (balance fromAsset) amount\<rparr>);
          a2 = a1(toAssetId \<mapsto>
                 (position_or_new a1 toAssetId)
                   \<lparr>balance := jadd (balance (position_or_new a1 toAssetId)) toAmount\<rparr>)
      in if balance (position_or_new a2 fromAssetId) = Fin 0
         then a2(fromAssetId := None) else a2)"

definition swapAssets ::
  "state \<Rightarrow> string \<Rightarrow> string \<Rightarrow> jsnum \<Rightarrow> jsstring option \<Rightarrow> tx result"
where
  "swapAssets s fromAssetId toAssetId amount pin =
     (case currentUser s of
        None \<Rightarrow> (Inl TypeError, s)
      | Some cu \<Rightarrow>
          bind_r (pin_gate s (user_id cu) pin)
            (\<lambda>_ s1.
               case getWallet s1 None of
                 None \<Rightarrow> (Inl TypeError, s1)
               | Some w \<Rightarrow>
                   (case assets w fromAssetId of
                      None \<Rightarrow> (Inl (Error ''Insufficient source asset balance''), s1)
                    | Some fromAsset \<Rightarrow>
                        if jlt (balance fromAsset) amount
                        then (Inl (Error ''Insufficient source asset balance''), s1)
                        else
                          (let fromPrice = market_price s1 fromAssetId;
                               toPrice = market_price s1 toAssetId;
                               toAmount = jdiv (jmul amount fromPrice) toPrice;
                               w1 = w\<lparr>assets := swap_positions (assets w) fromAssetId toAssetId
                                                  fromAsset amount toAmount\<rparr>;
                               s2 = s1\<lparr>wallets := (wallets s1)(current_key s1 \<mapsto> w1)\<rparr>
                           in createTransaction s2 ''swap'' fromAssetId amount None None
                                (SwapMeta toAssetId toAmount (jdiv fromPrice toPrice))))))"

definition addMoney :: "state \<Rightarrow> jsnum \<Rightarrow> tx result" where
  "addMoney s amount =
     (case getWallet s None of
        None \<Rightarrow> (Inl TypeError, s)
      | Some w \<Rightarrow>
          createTransaction
            (s\<lparr>wallets := (wallets s)(current_key s \<mapsto>
                 w\<lparr>dollarBalance := jadd (dollarBalance w) amount\<rparr>)\<rparr>)
            ''add_money'' ''USD'' amount (Some ''Noble Chain Support'') None NoMeta)"

definition updateUserBalance :: "state \<Rightarrow> string \<Rightarrow> string \<Rightarrow> jsnum \<Rightarrow> unit result" where
  "updateUserBalance s uid assetId newBalance =
     (case getWallet s (Some uid) of
        None \<Rightarrow> (Inl TypeError, s)
      | Some w \<Rightarrow>
          (Inr (),
           s\<lparr>wallets := (wallets s)(wallet_key s (Some uid) \<mapsto>
                (if assetId = ''USD'' then w\<lparr>dollarBalance := newBalance\<rparr>
                 else w\<lparr>assets := (assets w)(assetId \<mapsto>
                        (position_or_new (assets w) assetId)\<lparr>balance := newBalance\<rparr>)\<rparr>))\<rparr>))"

subsection \<open>Accounts and sessions\<close>

text \<open>
  \<open>signup\<close>, with the identifier \<open>generateId()\<close> returns as the argument \<open>newId\<close>.
\<close>

definition signup :: "state \<Rightarrow> string \<Rightarrow> string \<Rightarrow> jsstring \<Rightarrow> string \<Rightarrow> user result" where
  "signup s newId mail password uname =
     (if find (\<lambda>u. email u = mail) (users s) \<noteq> None
      then (Inl (Error ''Email already registered''), s)
      else if find (\<lambda>u. username u = uname) (users s) \<noteq> None
      then (Inl (Error ''Username already taken''), s)
      else
        (case hashPassword password of
           Inl e \<Rightarrow> (Inl e, s)
         | Inr h \<Rightarrow>
             (let u = \<lparr>user_id = newId, email = mail, username = uname,
                       passwordHash = h, transferPinHash = None,
                       hasLoggedInBefore = False\<rparr>;
                  s1 = s\<lparr>users := users s @ [u]\<rparr>;
                  s2 = s1\<lparr>wallets := (wallets s1)(newId \<mapsto>
                         \<lparr>userId = newId, dollarBalance = Fin 0, assets = Map.empty,
                          totalValue = Fin 0\<rparr>)\<rparr>
              in (Inr u, snd (createPinEntry s2 newId)))))"

text \<open>
  \<open>login\<close>, without the login history and the administrator's e-mail it writes (no
  modelled method reads them): the user found by e-mail becomes the current user.
\<close>

definition login :: "state \<Rightarrow> string \<Rightarrow> jsstring \<Rightarrow> user result" where
  "login s mail password =
     (case find (\<lambda>u. email u = mail) (users s) of
        None \<Rightarrow> (Inl (Error ''Invalid credentials''), s)
      | Some u \<Rightarrow>
          (case hashPassword password of
             Inl e \<Rightarrow> (Inl e, s)
           | Inr h \<Rightarrow>
               if passwordHash u \<noteq> h
               then (Inl (Error ''Invalid credentials''), s)
               else
                 (let u1 = u\<lparr>hasLoggedInBefore := True\<rparr>
                  in (Inr u1,
                      s\<lparr>users := update_first (\<lambda>v. email v = mail)
                                    (\<lambda>v. v\<lparr>hasLoggedInBefore := True\<rparr>) (users s),
                        currentUser := Some u1\<rparr>))))"

section \<open>Observations\<close>

text \<open>
  The names of the properties every object inherits from \<open>Object.prototype\<close>. Under
  such a key an object without an own property of that name still yields a value, so
  the tests \<open>!wallet.assets[assetId]\<close> and \<open>!asset\<close> do not see that the asset is
  absent.
\<close>

definition inherited_names :: "string list" where
  "inherited_names =
     [''constructor'', ''__defineGetter__'', ''__defineSetter__'', ''hasOwnProperty'',
      ''__lookupGetter__'', ''__lookupSetter__'', ''isPrototypeOf'',
      ''propertyIsEnumerable'', ''toString'', ''valueOf'', ''__proto__'',
      ''toLocaleString'']"

definition inherited :: "string \<Rightarrow> bool" where
  "inherited k = (k \<in> set inherited_names)"

text \<open>What \<open>hashPassword\<close> returns for a string of code units up to 255.\<close>

definition hash_of :: "jsstring \<Rightarrow> string" where
  "hash_of p = rev (b64_bytes p)"

text \<open>
  The balance \<open>sendMoney\<close> checks and moves for an asset identifier: the dollar
  balance for \<open>USD\<close>, the position's balance otherwise, 0 when the asset is not
  held.
\<close>

definition held :: "wallet \<Rightarrow> string \<Rightarrow> jsnum" where
  "held w a = (if a = ''USD'' then dollarBalance w else balance (position_or_new (assets w) a))"

text \<open>A number that is \<open>>= 0\<close>, and one that is moreover finite.\<close>

definition nonneg :: "jsnum \<Rightarrow> bool" where
  "nonneg x = jge x (Fin 0)"

definition fin_nonneg :: "jsnum \<Rightarrow> bool" where
  "fin_nonneg x = (case x of Fin r \<Rightarrow> 0 \<le> r | _ \<Rightarrow> False)"

definition wallet_nonneg :: "wallet \<Rightarrow> bool" where
  "wallet_nonneg w =
     (nonneg (dollarBalance w) \<and> (\<forall>a p. assets w a = Some p \<longrightarrow> nonneg (balance p)))"

definition wallets_nonneg :: "(string \<rightharpoonup> wallet) \<Rightarrow> bool" where
  "wallets_nonneg m = (\<forall>u w. m u = Some w \<longrightarrow> wallet_nonneg w)"

definition state_nonneg :: "state \<Rightarrow> bool" where
  "state_nonneg s = wallets_nonneg (wallets s)"

text \<open>No user, the current one included, has the name of an inherited property as identifier.\<close>

definition ids_ok :: "state \<Rightarrow> bool" where
  "ids_ok s =
     (list_all (\<lambda>u. \<not> inherited (user_id u)) (users s) \<and>
      (case currentUser s of None \<Rightarrow> True | Some u \<Rightarrow> \<not> inherited (user_id u)))"

subsection \<open>Sequences of calls\<close>

datatype op =
    AddMoney jsnum
  | ReceiveMoney jsnum string
  | SendMoney string jsnum string "jsstring option"
  | BuyAsset string jsnum "jsnum option"
  | SellAsset string jsnum "jsnum option"
  | SwapAssets string string jsnum "jsstring option"
  | AdminSetBalance string string jsnum
  | Login string jsstring
  | Signup string string jsstring string

text \<open>The state a call leaves behind, whether it returns or throws.\<close>

fun apply_op :: "state \<Rightarrow> op \<Rightarrow> state" where
  "apply_op s (AddMoney x) = snd (addMoney s x)"
| "apply_op s (ReceiveMoney x a) = snd (receiveMoney s x a)"
| "apply_op s (SendMoney r x a pin) = snd (sendMoney s r x a pin)"
| "apply_op s (BuyAsset a x p) = snd (buyAsset s a x p)"
| "apply_op s (SellAsset a x p) = snd (sellAsset s a x p)"
| "apply_op s (SwapAssets f g x pin) = snd (swapAssets s f g x pin)"
| "apply_op s (AdminSetBalance u a x) = snd (updateUserBalance s u a x)"
| "apply_op s (Login mail password) = snd (login s mail password)"
| "apply_op s (Signup newId mail password uname) = snd (signup s newId mail password uname)"

fun run :: "state \<Rightarrow> op list \<Rightarrow> state" where
  "run s [] = s"
| "run s (c # cs) = run (apply_op s c) cs"

text \<open>
  Calls with sensible arguments: every amount a finite number \<open>>= 0\<close>, the cost of a
  purchase finite and \<open>>= 0\<close>, the proceeds of a sale and the converted amount of a
  swap \<open>>= 0\<close> (not \<open>NaN\<close>), the balance an administrator sets \<open>>= 0\<close>, and no
  asset or user identifier the name of an inherited property.
\<close>

fun op_ok :: "state \<Rightarrow> op \<Rightarrow> bool" where
  "op_ok s (AddMoney x) = fin_nonneg x"
| "op_ok s (ReceiveMoney x a) = (fin_nonneg x \<and> \<not> inherited a)"
| "op_ok s (SendMoney r x a pin) = (fin_nonneg x \<and> \<not> inherited a)"
| "op_ok s (BuyAsset a x p) =
     (fin_nonneg x \<and> fin_nonneg (jmul (unit_price s a p) x) \<and> \<not> inherited a)"
| "op_ok s (SellAsset a x p) =
     (fin_nonneg x \<and> nonneg (jmul (unit_price s a p) x) \<and> \<not> inherited a)"
| "op_ok s (SwapAssets f g x pin) =
     (fin_nonneg x \<and> nonneg (jdiv (jmul x (market_price s f)) (market_price s g)) \<and>
      \<not> inherited f \<and> \<not> inherited g)"
| "op_ok s (AdminSetBalance u a x) = (nonneg x \<and> \<not> inherited u \<and> \<not> inherited a)"
| "op_ok s (Login mail password) = True"
| "op_ok s (Signup newId mail password uname) = (\<not> inherited newId)"

fun run_ok :: "state \<Rightarrow> op list \<Rightarrow> bool" where
  "run_ok s [] = True"
| "run_ok s (c # cs) = (op_ok s c \<and> run_ok (apply_op s c) cs)"

section \<open>Example states\<close>

text \<open>
  Two users; the first is logged in, holds 1000 dollars and 10 BTC bought at 100, and
  has set the transfer PIN 1234; the second has an empty wallet and no PIN yet.
\<close>

definition demo_alice :: user where
  "demo_alice =
     \<lparr>user_id = ''a1'', email = ''alice@example.org'', username = ''alice'',
      passwordHash = hash_of (units ''secret''),
      transferPinHash = Some (hash_of (units ''1234'')),
      hasLoggedInBefore = True\<rparr>"

definition demo_bob :: user where
  "demo_bob =
     \<lparr>user_id = ''b1'', email = ''bob@example.org'', username = ''bob'',
      passwordHash = hash_of (units ''hunter2''), transferPinHash = None,
      hasLoggedInBefore = False\<rparr>"

definition demo_market :: "string \<rightharpoonup> market_entry" where
  "demo_market =
     [''BTC'' \<mapsto> \<lparr>name = ''Bitcoin'', symbol = ''BTC'', price = Fin 45000, change = Fin 0\<rparr>,
      ''ETH'' \<mapsto> \<lparr>name = ''Ethereum'', symbol = ''ETH'', price = Fin 3000, change = Fin 0\<rparr>]"

definition demo_state :: state where
  "demo_state =
     \<lparr>currentUser = Some demo_alice,
      users = [demo_alice, demo_bob],
      wallets =
        [''a1'' \<mapsto> \<lparr>userId = ''a1'', dollarBalance = Fin 1000,
                    assets = [''BTC'' \<mapsto> \<lparr>balance = Fin 10, averageCost = Fin 100\<rparr>],
                    totalValue = Fin 0\<rparr>,
         ''b1'' \<mapsto> \<lparr>userId = ''b1'', dollarBalance = Fin 0, assets = Map.empty,
                    totalValue = Fin 0\<rparr>],
      transactions = [],
      marketData = demo_market,
      pins =
        [''a1'' \<mapsto> \<lparr>pin_userId = ''a1'', pinHash = Some (hash_of (units ''1234'')),
                    mustSetPin = False, resetBy = None\<rparr>,
         ''b1'' \<mapsto> \<lparr>pin_userId = ''b1'', pinHash = None, mustSetPin = True,
                    resetBy = None\<rparr>],
      adminLog = [], emailLogs = [], notifications = []\<rparr>"

text \<open>The same state with the second user logged in instead.\<close>

definition demo_state_bob :: state where
  "demo_state_bob = demo_state\<lparr>currentUser := Some demo_bob\<rparr>"

text \<open>The application before anyone has signed up.\<close>

definition empty_state :: state where
  "empty_state =
     \<lparr>currentUser = None, users = [], wallets = Map.empty, transactions = [],
      marketData = demo_market, pins = Map.empty, adminLog = [], emailLogs = [],
      notifications = []\<rparr>"

text \<open>One user has signed up and logged in.\<close>

definition signed_up :: state where
  "signed_up = run empty_state
     [Signup ''u1'' ''alice@example.org'' (units ''secret'') ''alice'',
      Login ''alice@example.org'' (units ''secret'')]"

section \<open>Properties\<close>

subsection \<open>What the helpers leave alone\<close>

lemma sendEmailNotification_frame [simp]:
  "wallets (sendEmailNotification s u t) = wallets s"
  "transactions (sendEmailNotification s u t) = transactions s"
  "pins (sendEmailNotification s u t) = pins s"
  "users (sendEmailNotification s u t) = users s"
  "currentUser (sendEmailNotification s u t) = currentUser s"
  "marketData (sendEmailNotification s u t) = marketData s"
  "adminLog (sendEmailNotification s u t) = adminLog s"
  "notifications (sendEmailNotification s u t) = notifications s"
  by (simp_all add: sendEmailNotification_def split: option.split)

lemma logAdminAction_frame [simp]:
  "wallets (logAdminAction s e) = wallets s"
  "transactions (logAdminAction s e) = transactions s"
  "pins (logAdminAction s e) = pins s"
  "users (logAdminAction s e) = users s"
  "currentUser (logAdminAction s e) = currentUser s"
  "marketData (logAdminAction s e) = marketData s"
  "emailLogs (logAdminAction s e) = emailLogs s"
  "notifications (logAdminAction s e) = notifications s"
  by (simp_all add: logAdminAction_def)

lemma verifyTransferPin_frame [simp]:
  "wallets (snd (verifyTransferPin s u p)) = wallets s"
  "transactions (snd (verifyTransferPin s u p)) = transactions s"
  "pins (snd (verifyTransferPin s u p)) = pins s"
  "users (snd (verifyTransferPin s u p)) = users s"
  "currentUser (snd (verifyTransferPin s u p)) = currentUser s"
  "marketData (snd (verifyTransferPin s u p)) = marketData s"
  "notifications (snd (verifyTransferPin s u p)) = notifications s"
  by (simp_all add: verifyTransferPin_def Let_def split: option.split sum.split)

subsection \<open>Base64 and the hash\<close>

text \<open>
  The base64 text determines the bytes it encodes, so two strings of code units up to
  255 with the same hash are the same string.
\<close>

lemma b64_alphabet_distinct: "distinct b64_alphabet"
  by (simp add: b64_alphabet_def)

lemma b64_alphabet_length: "length b64_alphabet = 64"
  by (simp add: b64_alphabet_def)

lemma b64_pad_not_digit: "CHR ''='' \<notin> set b64_alphabet"
  by (simp add: b64_alphabet_def)

lemma b64_digit_inj: "m < 64 \<Longrightarrow> n < 64 \<Longrightarrow> b64_digit m = b64_digit n \<Longrightarrow> m = n"
  using nth_eq_iff_index_eq [OF b64_alphabet_distinct, of m n]
  by (simp add: b64_digit_def b64_alphabet_length)

lemma b64_digit_not_pad [simp]: "b64_digit n \<noteq> CHR ''=''" "CHR ''='' \<noteq> b64_digit n"
proof -
  have "b64_digit n \<in> set b64_alphabet"
    unfolding b64_digit_def by (rule nth_mem) (simp add: b64_alphabet_length)
  then show "b64_digit n \<noteq> CHR ''=''" "CHR ''='' \<noteq> b64_digit n"
    using b64_pad_not_digit by auto
qed

lemma digit_bounds:
  fixes a b c :: nat
  assumes "b \<le> 255"
  shows "b div 4 < 64" "(a mod 4) * 16 + b div 16 < 64" "(a mod 16) * 4 + b div 64 < 64"
    "b div 16 < 16" "b div 64 < 4" "(a mod 4) * 16 < 64" "(a mod 16) * 4 < 64"
proof -
  have d4: "b div 4 \<le> 63" and d16: "b div 16 \<le> 15" and d64: "b div 64 \<le> 3"
    using div_le_mono [OF assms, of 4] div_le_mono [OF assms, of 16]
      div_le_mono [OF assms, of 64] by simp_all
  have m4: "a mod 4 \<le> 3" and m16: "a mod 16 \<le> 15"
    using mod_less_divisor [of 4 a] mod_less_divisor [of 16 a] by linarith+
  show "b div 4 < 64" "b div 16 < 16" "b div 64 < 4"
    using d4 d16 d64 by linarith+
  show "(a mod 4) * 16 + b div 16 < 64" "(a mod 4) * 16 < 64"
    using m4 d16 by linarith+
  show "(a mod 16) * 4 + b div 64 < 64" "(a mod 16) * 4 < 64"
    using m16 d64 by linarith+
qed

lemma b64_first:
  "a \<le> 255 \<Longrightarrow> a' \<le> 255 \<Longrightarrow> b64_digit (a div 4) = b64_digit (a' div 4) \<Longrightarrow> a div 4 = a' div 4"
  by (rule b64_digit_inj) (rule digit_bounds, assumption)+

lemma b64_second:
  "b \<le> 255 \<Longrightarrow> b' \<le> 255 \<Longrightarrow>
   b64_digit ((a mod 4) * 16 + b div 16) = b64_digit ((a' mod 4) * 16 + b' div 16) \<Longrightarrow>
   (a mod 4) * 16 + b div 16 = (a' mod 4) * 16 + b' div 16"
  by (rule b64_digit_inj) (rule digit_bounds, assumption)+

lemma b64_third:
  "c \<le> 255 \<Longrightarrow> c' \<le> 255 \<Longrightarrow>
   b64_digit ((b mod 16) * 4 + c div 64) = b64_digit ((b' mod 16) * 4 + c' div 64) \<Longrightarrow>
   (b mod 16) * 4 + c div 64 = (b' mod 16) * 4 + c' div 64"
  by (rule b64_digit_inj) (rule digit_bounds, assumption)+

lemma b64_fourth:
  "b64_digit (c mod 64) = b64_digit (c' mod 64) \<Longrightarrow> c mod 64 = c' mod 64"
  by (rule b64_digit_inj) simp_all

lemma b64_second0:
  "b64_digit ((a mod 4) * 16) = b64_digit ((a' mod 4) * 16) \<Longrightarrow> a mod 4 = a' mod 4"
  using b64_digit_inj [of "(a mod 4) * 16" "(a' mod 4) * 16"]
    digit_bounds(6) [of 0 a] digit_bounds(6) [of 0 a'] by simp

lemma b64_third0:
  "b64_digit ((b mod 16) * 4) = b64_digit ((b' mod 16) * 4) \<Longrightarrow> b mod 16 = b' mod 16"
  using b64_digit_inj [of "(b mod 16) * 4" "(b' mod 16) * 4"]
    digit_bounds(7) [of 0 b] digit_bounds(7) [of 0 b'] by simp

lemma split_digits:
  fixes x y x' y' k :: nat
  assumes "y < k" "y' < k" "x * k + y = x' * k + y'"
  shows "x = x' \<and> y = y'"
proof -
  have "x = (x * k + y) div k"
    using assms(1) by simp
  also have "\<dots> = (x' * k + y') div k"
    by (simp only: assms(3))
  also have "\<dots> = x'"
    using assms(2) by simp
  finally have "x = x'" .
  with assms(3) show ?thesis
    by simp
qed

lemma join_digits:
  fixes a a' k :: nat
  assumes "a div k = a' div k" "a mod k = a' mod k"
  shows "a = a'"
proof -
  have "a = a div k * k + a mod k"
    by simp
  also have "\<dots> = a' div k * k + a' mod k"
    by (simp only: assms)
  also have "\<dots> = a'"
    by simp
  finally show ?thesis .
qed

lemma b64_one:
  assumes "a \<le> 255" "a' \<le> 255"
    "b64_digit (a div 4) = b64_digit (a' div 4)"
    "b64_digit ((a mod 4) * 16) = b64_digit ((a' mod 4) * 16)"
  shows "a = a'"
proof -
  have "a div 4 = a' div 4"
    using assms by (intro b64_first)
  moreover have "a mod 4 = a' mod 4"
    using assms by (intro b64_second0)
  ultimately show ?thesis
    by (rule join_digits)
qed

lemma b64_two:
  assumes "a \<le> 255" "a' \<le> 255" "b \<le> 255" "b' \<le> 255"
    "b64_digit (a div 4) = b64_digit (a' div 4)"
    "b64_digit ((a mod 4) * 16 + b div 16) = b64_digit ((a' mod 4) * 16 + b' div 16)"
    "b64_digit ((b mod 16) * 4) = b64_digit ((b' mod 16) * 4)"
  shows "a = a' \<and> b = b'"
proof -
  have a4: "a div 4 = a' div 4"
    using assms by (intro b64_first)
  have "(a mod 4) * 16 + b div 16 = (a' mod 4) * 16 + b' div 16"
    using assms by (intro b64_second)
  moreover have "b div 16 < 16" "b' div 16 < 16"
    using assms digit_bounds(4) by blast+
  ultimately have m: "a mod 4 = a' mod 4 \<and> b div 16 = b' div 16"
    by (intro split_digits)
  have b16: "b mod 16 = b' mod 16"
    using assms by (intro b64_third0)
  from m have am: "a mod 4 = a' mod 4" and bd: "b div 16 = b' div 16"
    by blast+
  show ?thesis
    using join_digits [OF a4 am] join_digits [OF bd b16] by blast
qed

lemma b64_three:
  assumes "a \<le> 255" "a' \<le> 255" "b \<le> 255" "b' \<le> 255" "c \<le> 255" "c' \<le> 255"
    "b64_digit (a div 4) = b64_digit (a' div 4)"
    "b64_digit ((a mod 4) * 16 + b div 16) = b64_digit ((a' mod 4) * 16 + b' div 16)"
    "b64_digit ((b mod 16) * 4 + c div 64) = b64_digit ((b' mod 16) * 4 + c' div 64)"
    "b64_digit (c mod 64) = b64_digit (c' mod 64)"
  shows "a = a' \<and> b = b' \<and> c = c'"
proof -
  have a4: "a div 4 = a' div 4"
    using assms by (intro b64_first)
  have "(a mod 4) * 16 + b div 16 = (a' mod 4) * 16 + b' div 16"
    using assms by (intro b64_second)
  moreover have "b div 16 < 16" "b' div 16 < 16"
    using assms digit_bounds(4) by blast+
  ultimately have m: "a mod 4 = a' mod 4 \<and> b div 16 = b' div 16"
    by (intro split_digits)
  have "(b mod 16) * 4 + c div 64 = (b' mod 16) * 4 + c' div 64"
    using assms by (intro b64_third)
  moreover have "c div 64 < 4" "c' div 64 < 4"
    using assms digit_bounds(5) by blast+
  ultimately have n: "b mod 16 = b' mod 16 \<and> c div 64 = c' div 64"
    by (intro split_digits)
  have c64: "c mod 64 = c' mod 64"
    using assms by (intro b64_fourth)
  from m have am: "a mod 4 = a' mod 4" and bd: "b div 16 = b' div 16"
    by blast+
  from n have bm: "b mod 16 = b' mod 16" and cd: "c div 64 = c' div 64"
    by blast+
  show ?thesis
    using join_digits [OF a4 am] join_digits [OF bd bm] join_digits [OF cd c64] by blast
qed

lemma b64_bytes_inject:
  "list_all (\<lambda>u. u \<le> 255) xs \<Longrightarrow> list_all (\<lambda>u. u \<le> 255) ys \<Longrightarrow>
   b64_bytes xs = b64_bytes ys \<Longrightarrow> xs = ys"
proof (induction xs arbitrary: ys rule: b64_bytes.induct)
  case 1
  then show ?case
    by (cases ys rule: b64_bytes.cases) simp_all
next
  case (2 a)
  show ?case
  proof (cases ys rule: b64_bytes.cases)
    case (2 a')
    with "2.prems" have "a = a'"
      by (intro b64_one) simp_all
    with 2 show ?thesis by simp
  qed (use "2.prems" in simp_all)
next
  case (3 a b)
  show ?case
  proof (cases ys rule: b64_bytes.cases)
    case (3 a' b')
    with "3.prems" have "a = a' \<and> b = b'"
      by (intro b64_two) simp_all
    with 3 show ?thesis by simp
  qed (use "3.prems" in simp_all)
next
  case (4 a b c rest)
  show ?case
  proof (cases ys rule: b64_bytes.cases)
    case (4 a' b' c' rest')
    with "4.prems" have abc: "a = a' \<and> b = b' \<and> c = c'"
      by (intro b64_three) simp_all
    from 4 "4.prems" have "rest = rest'"
      by (intro "4.IH") simp_all
    with abc 4 show ?thesis by simp
  qed (use "4.prems" in simp_all)
qed

lemma of_char_le_255: "of_char c \<le> (255::nat)"
proof -
  have "of_char c mod 256 < (256::nat)"
    by (rule mod_less_divisor) simp
  then have "of_char c < (256::nat)"
    by (simp only: of_char_mod_256)
  then show ?thesis
    by linarith
qed

lemma units_latin1: "list_all (\<lambda>u. u \<le> 255) (units t)"
  by (simp add: units_def list_all_iff of_char_le_255)

lemma hashPassword_latin1:
  "list_all (\<lambda>u. u \<le> 255) p \<Longrightarrow> hashPassword p = Inr (hash_of p)"
  by (simp add: hashPassword_def btoa_def hash_of_def)



lemma hashPassword_Inl:
  "hashPassword p = Inl e \<longleftrightarrow> \<not> list_all (\<lambda>u. u \<le> 255) p \<and> e = InvalidCharacterError"
  by (auto simp: hashPassword_def btoa_def)

lemma hash_of_inject:
  "list_all (\<lambda>u. u \<le> 255) p \<Longrightarrow> list_all (\<lambda>u. u \<le> 255) q \<Longrightarrow>
   hash_of p = hash_of q \<Longrightarrow> p = q"
  by (simp add: hash_of_def b64_bytes_inject)


lemma b64_bytes_nonempty: "xs \<noteq> [] \<Longrightarrow> b64_bytes xs \<noteq> []"
  by (induction xs rule: b64_bytes.induct) simp_all

lemma hash_of_nonempty: "p \<noteq> [] \<Longrightarrow> hash_of p \<noteq> []"
  by (simp add: hash_of_def b64_bytes_nonempty)

lemma hashPassword_units [simp]: "hashPassword (units t) = Inr (hash_of (units t))"
  by (simp add: hashPassword_latin1 units_latin1)



subsection \<open>The transfer PIN\<close>

lemma verify_result:
  "fst (verifyTransferPin s u p) =
     (case pins s u of
        None \<Rightarrow> Inl (Error ''Transfer PIN not set'')
      | Some pd \<Rightarrow>
          if \<not> truthy_str (pinHash pd) then Inl (Error ''Transfer PIN not set'')
          else (case hashPassword p of
                  Inl e \<Rightarrow> Inl e
                | Inr h \<Rightarrow>
                    if Some h = pinHash pd then Inr True
                    else Inl (Error ''Invalid Transfer PIN'')))"
  by (simp add: verifyTransferPin_def Let_def split: option.split sum.split)

lemma verify_throws:
  "hashPassword p = Inl e \<Longrightarrow> pins s u = Some pd \<Longrightarrow> truthy_str (pinHash pd) \<Longrightarrow>
   verifyTransferPin s u p = (Inl e, s)"
  by (simp add: verifyTransferPin_def)

lemma demo_pin_a:
  "pins demo_state ''a1'' =
     Some \<lparr>pin_userId = ''a1'', pinHash = Some (hash_of (units ''1234'')),
           mustSetPin = False, resetBy = None\<rparr>"
  by (simp add: demo_state_def)

lemma demo_pin_b:
  "pins demo_state ''b1'' =
     Some \<lparr>pin_userId = ''b1'', pinHash = None, mustSetPin = True, resetBy = None\<rparr>"
  by (simp add: demo_state_def)

lemma demo_hash_nonempty: "hash_of (units ''1234'') \<noteq> []"
  by (rule hash_of_nonempty) (simp add: units_def)





text \<open>
  C10. \<open>createPinEntry\<close> writes the record \<open>pinHash = null, mustSetPin = true\<close> for
  the user whatever the PIN table held for that user before: afterwards the user has no
  usable PIN and must set one. It sends no e-mail, writes nothing to the
  administrator's log, adds no notification, and leaves the user records (with their
  \<open>transferPinHash\<close>) and the wallets as they were.
\<close>

theorem createPinEntry_overwrites:
  "fst (createPinEntry s uid) =
     \<lparr>pin_userId = uid, pinHash = None, mustSetPin = True, resetBy = None\<rparr> \<and>
   pins (snd (createPinEntry s uid)) =
     (pins s)(uid \<mapsto> \<lparr>pin_userId = uid, pinHash = None, mustSetPin = True, resetBy = None\<rparr>) \<and>
   \<not> hasTransferPin (snd (createPinEntry s uid)) uid \<and>
   mustSetTransferPin (snd (createPinEntry s uid)) uid \<and>
   fst (verifyTransferPin (snd (createPinEntry s uid)) uid pin) =
     Inl (Error ''Transfer PIN not set'') \<and>
   emailLogs (snd (createPinEntry s uid)) = emailLogs s \<and>
   adminLog (snd (createPinEntry s uid)) = adminLog s \<and>
   notifications (snd (createPinEntry s uid)) = notifications s \<and>
   users (snd (createPinEntry s uid)) = users s \<and>
   wallets (snd (createPinEntry s uid)) = wallets s"
  by (simp add: createPinEntry_def Let_def hasTransferPin_def mustSetTransferPin_def
      verify_result truthy_str_def)

text \<open>On the example state: the first user's active PIN is gone after the call.\<close>

lemma createPinEntry_discards_active_pin:
  "hasTransferPin demo_state ''a1'' \<and>
   \<not> hasTransferPin (snd (createPinEntry demo_state ''a1'')) ''a1'' \<and>
   emailLogs (snd (createPinEntry demo_state ''a1'')) = []"
proof -
  have "hasTransferPin demo_state ''a1''"
    using demo_hash_nonempty by (simp add: hasTransferPin_def demo_pin_a truthy_str_def)
  moreover have "\<not> hasTransferPin (snd (createPinEntry demo_state ''a1'')) ''a1''"
    by (simp add: createPinEntry_def Let_def hasTransferPin_def truthy_str_def)
  moreover have "emailLogs (snd (createPinEntry demo_state ''a1'')) = []"
    by (simp add: createPinEntry_def Let_def demo_state_def)
  ultimately show ?thesis
    by simp
qed

subsection \<open>Transactions and the PIN gate\<close>

lemma addNotification_frame [simp]:
  "wallets (addNotification s a b) = wallets s"
  "transactions (addNotification s a b) = transactions s"
  "pins (addNotification s a b) = pins s"
  "users (addNotification s a b) = users s"
  "currentUser (addNotification s a b) = currentUser s"
  "marketData (addNotification s a b) = marketData s"
  "adminLog (addNotification s a b) = adminLog s"
  "emailLogs (addNotification s a b) = emailLogs s"
  by (simp_all add: addNotification_def)

lemma createTransaction_frame [simp]:
  "wallets (snd (createTransaction s ty a amt cp uid m)) = wallets s"
  "pins (snd (createTransaction s ty a amt cp uid m)) = pins s"
  "users (snd (createTransaction s ty a amt cp uid m)) = users s"
  "currentUser (snd (createTransaction s ty a amt cp uid m)) = currentUser s"
  "marketData (snd (createTransaction s ty a amt cp uid m)) = marketData s"
  "adminLog (snd (createTransaction s ty a amt cp uid m)) = adminLog s"
  "emailLogs (snd (createTransaction s ty a amt cp uid m)) = emailLogs s"
  by (simp_all add: createTransaction_def Let_def split: option.split)

text \<open>The owner of a new transaction: \<open>userId || this.currentUser.id\<close>.\<close>

lemma createTransaction_result:
  "createTransaction s ty a amt cp uid m =
     (case (if truthy_str uid then uid else map_option user_id (currentUser s)) of
        None \<Rightarrow> (Inl TypeError, s)
      | Some owner \<Rightarrow>
          (Inr \<lparr>tx_userId = owner, tx_type = ty, tx_asset = a, tx_amount = amt,
                 tx_counterparty = cp, tx_status = ''completed'', tx_metadata = m\<rparr>,
           addNotification
             (s\<lparr>transactions := transactions s @
                  [\<lparr>tx_userId = owner, tx_type = ty, tx_asset = a, tx_amount = amt,
                    tx_counterparty = cp, tx_status = ''completed'', tx_metadata = m\<rparr>]\<rparr>)
             (''Transaction: '' @ underscores_to_spaces ty) ''transaction''))"
  by (simp add: createTransaction_def Let_def split: option.split)

lemma createTransaction_transactions:
  "fst (createTransaction s ty a amt cp uid m) = Inr t \<Longrightarrow>
   transactions (snd (createTransaction s ty a amt cp uid m)) = transactions s @ [t]"
  by (auto simp: createTransaction_result truthy_str_def split: option.splits if_splits)

lemma createTransaction_not_Error:
  "fst (createTransaction s ty a amt cp uid m) \<noteq> Inl (Error msg)"
  by (auto simp: createTransaction_result split: option.splits)

lemma pin_gate_frame [simp]:
  "wallets (snd (pin_gate s u p)) = wallets s"
  "transactions (snd (pin_gate s u p)) = transactions s"
  "pins (snd (pin_gate s u p)) = pins s"
  "users (snd (pin_gate s u p)) = users s"
  "currentUser (snd (pin_gate s u p)) = currentUser s"
  "marketData (snd (pin_gate s u p)) = marketData s"
  "notifications (snd (pin_gate s u p)) = notifications s"
  by (simp_all add: pin_gate_def split: option.split)

text \<open>
  The gate lets the call through, throws one of its messages, or passes on the
  exception of \<open>hashPassword\<close>, which leaves the state as it was.
\<close>

lemma pin_gate_result:
  "fst (pin_gate s u p) = Inr True \<or> (\<exists>msg. fst (pin_gate s u p) = Inl (Error msg)) \<or>
   pin_gate s u p = (Inl InvalidCharacterError, s)"
proof (cases "hasTransferPin s u \<and> truthy_str p")
  case True
  then obtain q pd where q: "p = Some q" "q \<noteq> []" and pd: "pins s u = Some pd"
    "truthy_str (pinHash pd)"
    by (auto simp: hasTransferPin_def truthy_str_def split: option.splits)
  have g: "pin_gate s u p = verifyTransferPin s u q"
    using True q by (simp add: pin_gate_def)
  show ?thesis
  proof (cases "hashPassword q")
    case (Inl e)
    then show ?thesis
      using verify_throws [OF Inl pd] by (simp add: g hashPassword_Inl)
  next
    case (Inr h)
    then show ?thesis
      using pd by (simp add: g verify_result)
  qed
next
  case False
  then show ?thesis
    by (auto simp: pin_gate_def truthy_str_def split: option.splits)
qed

lemma bind_r_Inl: "fst r = Inl e \<Longrightarrow> bind_r r f = (Inl e, snd r)"
  by (cases r) (simp add: bind_r_def)

lemma bind_r_Inr: "fst r = Inr v \<Longrightarrow> bind_r r f = f v (snd r)"
  by (cases r) (simp add: bind_r_def)

text \<open>
  C7. With a current user whose PIN is configured (\<open>hasTransferPin\<close>), \<open>sendMoney\<close>
  without a PIN (\<open>null\<close> or the empty string) throws "Transfer PIN required for this
  transaction" and changes nothing. With a PIN, whatever error \<open>verifyTransferPin\<close>
  throws is the error of \<open>sendMoney\<close>, and no wallet and no transaction has changed
  by then. For a current user whose PIN is not configured the PIN argument is ignored:
  the call behaves as the call without a PIN and throws none of the PIN errors.
\<close>

theorem sendMoney_pin_gate:
  assumes cu: "currentUser s = Some cu"
  shows
   "(hasTransferPin s (user_id cu) \<and> \<not> truthy_str pin \<longrightarrow>
       sendMoney s r amount a pin =
         (Inl (Error ''Transfer PIN required for this transaction''), s)) \<and>
    (hasTransferPin s (user_id cu) \<and> pin = Some p \<and> p \<noteq> [] \<and>
     fst (verifyTransferPin s (user_id cu) p) = Inl e \<longrightarrow>
       sendMoney s r amount a pin = (Inl e, snd (verifyTransferPin s (user_id cu) p)) \<and>
       wallets (snd (sendMoney s r amount a pin)) = wallets s \<and>
       transactions (snd (sendMoney s r amount a pin)) = transactions s) \<and>
    (\<not> hasTransferPin s (user_id cu) \<longrightarrow>
       sendMoney s r amount a pin = sendMoney s r amount a None \<and>
       fst (sendMoney s r amount a pin) \<noteq>
         Inl (Error ''Transfer PIN required for this transaction'') \<and>
       fst (sendMoney s r amount a pin) \<noteq> Inl (Error ''Invalid Transfer PIN'') \<and>
       fst (sendMoney s r amount a pin) \<noteq> Inl (Error ''Transfer PIN not set''))"
proof (intro conjI impI)
  assume "hasTransferPin s (user_id cu) \<and> \<not> truthy_str pin"
  then show "sendMoney s r amount a pin =
         (Inl (Error ''Transfer PIN required for this transaction''), s)"
    using cu by (auto simp: sendMoney_def pin_gate_def bind_r_def truthy_str_def split: option.splits)
next
  assume h: "hasTransferPin s (user_id cu) \<and> pin = Some p \<and> p \<noteq> [] \<and>
     fst (verifyTransferPin s (user_id cu) p) = Inl e"
  then have g: "pin_gate s (user_id cu) pin = verifyTransferPin s (user_id cu) p"
    by (simp add: pin_gate_def)
  from h have f: "fst (verifyTransferPin s (user_id cu) p) = Inl e"
    by simp
  show eq: "sendMoney s r amount a pin = (Inl e, snd (verifyTransferPin s (user_id cu) p))"
    unfolding sendMoney_def using cu by (simp add: g bind_r_Inl [OF f])
  show "wallets (snd (sendMoney s r amount a pin)) = wallets s"
    by (simp add: eq)
  show "transactions (snd (sendMoney s r amount a pin)) = transactions s"
    by (simp add: eq)
next
  assume n: "\<not> hasTransferPin s (user_id cu)"
  then have g: "pin_gate s (user_id cu) q = (Inr True, s)" for q
    by (simp add: pin_gate_def)
  show "sendMoney s r amount a pin = sendMoney s r amount a None"
    using cu by (simp add: sendMoney_def g)
  have body: "fst (sendMoney s r amount a pin) \<noteq> Inl (Error msg)"
    if "msg \<noteq> ''Recipient not found''" "msg \<noteq> ''Insufficient balance''"
       "msg \<noteq> ''Insufficient asset balance''" for msg
    using cu that
    by (auto simp: sendMoney_def g bind_r_def send_records_def createTransaction_result
          truthy_str_def Let_def split: option.splits if_splits)
  show "fst (sendMoney s r amount a pin) \<noteq>
         Inl (Error ''Transfer PIN required for this transaction'')"
    by (rule body) simp_all
  show "fst (sendMoney s r amount a pin) \<noteq> Inl (Error ''Invalid Transfer PIN'')"
    by (rule body) simp_all
  show "fst (sendMoney s r amount a pin) \<noteq> Inl (Error ''Transfer PIN not set'')"
    by (rule body) simp_all
qed

lemma demo_has_pin: "hasTransferPin demo_state ''a1''"
  using demo_hash_nonempty by (simp add: hasTransferPin_def demo_pin_a truthy_str_def)

lemma demo_current:
  "currentUser demo_state = Some demo_alice" "user_id demo_alice = ''a1''"
  "currentUser demo_state_bob = Some demo_bob" "user_id demo_bob = ''b1''"
  by (simp_all add: demo_state_def demo_state_bob_def demo_alice_def demo_bob_def)

lemma demo_wrong_pin:
  "fst (verifyTransferPin demo_state ''a1'' (units ''0000'')) =
     Inl (Error ''Invalid Transfer PIN'')"
proof -
  have "hash_of (units ''0000'') \<noteq> hash_of (units ''1234'')"
    using hash_of_inject [OF units_latin1 units_latin1, of "''0000''" "''1234''"]
    by (auto simp: units_def)
  then show ?thesis
    using demo_hash_nonempty by (simp add: verify_result demo_pin_a truthy_str_def)
qed

theorem sendMoney_pin_gate_witness:
  "sendMoney demo_state ''bob'' (Fin 5) ''USD'' None =
     (Inl (Error ''Transfer PIN required for this transaction''), demo_state) \<and>
   fst (sendMoney demo_state ''bob'' (Fin 5) ''USD'' (Some (units ''0000''))) =
     Inl (Error ''Invalid Transfer PIN'') \<and>
   wallets (snd (sendMoney demo_state ''bob'' (Fin 5) ''USD'' (Some (units ''0000'')))) =
     wallets demo_state \<and>
   sendMoney demo_state_bob ''alice'' (Fin 0) ''USD'' (Some (units ''0000'')) =
     sendMoney demo_state_bob ''alice'' (Fin 0) ''USD'' None"
proof -
  have nopin: "\<not> hasTransferPin demo_state_bob ''b1''"
    by (simp add: hasTransferPin_def demo_state_bob_def demo_pin_b truthy_str_def)
  have ne: "units ''0000'' \<noteq> []"
    by (simp add: units_def)
  show ?thesis
    using sendMoney_pin_gate [OF demo_current(1), of None "''bob''" "Fin 5" "''USD''"
        "units ''0000''" "Error ''Invalid Transfer PIN''"]
      sendMoney_pin_gate [OF demo_current(1), of "Some (units ''0000'')" "''bob''" "Fin 5" "''USD''"
        "units ''0000''" "Error ''Invalid Transfer PIN''"]
      sendMoney_pin_gate [OF demo_current(3), of "Some (units ''0000'')" "''alice''" "Fin 0"
        "''USD''" "units ''0000''" "Error ''Invalid Transfer PIN''"]
      demo_has_pin demo_wrong_pin nopin ne
    by (simp add: demo_current truthy_str_def)
qed

subsection \<open>Rounding\<close>

lemma round_even_nonneg: "0 \<le> x \<Longrightarrow> 0 \<le> round_even x"
proof -
  assume "0 \<le> x"
  then have "0 \<le> \<lfloor>x\<rfloor>"
    by simp
  then show ?thesis
    by (simp add: round_even_def Let_def)
qed

lemma pow2_pos: "0 < pow2 e"
  by (simp add: pow2_def)

lemma round64_zero [simp]: "round64 0 = Fin 0"
  by (simp add: round64_def)

text \<open>Rounding keeps the sign: a number \<open>>= 0\<close> rounds to a number \<open>>= 0\<close>.\<close>

lemma round64_nonneg_cases:
  assumes "0 \<le> r"
  shows "round64 r = PInf \<or> (\<exists>q. round64 r = Fin q \<and> 0 \<le> q)"
proof (cases "r = 0")
  case True
  then show ?thesis
    by simp
next
  case False
  with assms have pos: "0 < r"
    by simp
  have q: "0 \<le> of_int (round_even (x / pow2 k)) * pow2 k" if "0 \<le> x" for x k
  proof (rule mult_nonneg_nonneg)
    have "0 \<le> x / pow2 k"
      using that pow2_pos [of k] by simp
    then show "0 \<le> (of_int (round_even (x / pow2 k)) :: rat)"
      using round_even_nonneg by simp
    show "0 \<le> pow2 k"
      using pow2_pos [of k] by simp
  qed
  show ?thesis
    using pos q by (auto simp: round64_def Let_def)
qed

text \<open>The arithmetic of the examples, each result the nearest binary64 value.\<close>

lemma demo_sums:
  "jadd (Fin 1000) (Fin 250) = Fin 1250"
  "jadd (Fin 1000) (Fin (- 50)) = Fin 950"
  "jadd (Fin 9007199254740992) (Fin 1) = Fin 9007199254740992"
  by code_simp+

subsection \<open>Deposits\<close>

lemma getWallet_current:
  "currentUser s = Some cu \<Longrightarrow> getWallet s None = wallets s (user_id cu)"
  "currentUser s = Some cu \<Longrightarrow> current_key s = user_id cu"
  by (simp_all add: getWallet_def wallet_key_def current_key_def)

lemma demo_wallets:
  "wallets demo_state ''a1'' =
     Some \<lparr>userId = ''a1'', dollarBalance = Fin 1000,
           assets = [''BTC'' \<mapsto> \<lparr>balance = Fin 10, averageCost = Fin 100\<rparr>],
           totalValue = Fin 0\<rparr>"
  "wallets demo_state ''b1'' =
     Some \<lparr>userId = ''b1'', dollarBalance = Fin 0, assets = Map.empty, totalValue = Fin 0\<rparr>"
  by (simp_all add: demo_state_def)

text \<open>
  C5, as amended. \<open>addMoney\<close> does not validate the amount: for a current user with a
  wallet it succeeds for every amount (positive, zero, negative, not a number), sets
  the dollar balance to the binary64 sum of the old balance and the amount, and
  appends exactly one \<open>add_money\<close> transaction with the counterparty "Noble Chain
  Support".
\<close>

theorem addMoney_credits_any_amount:
  assumes cu: "currentUser s = Some cu" and w: "wallets s (user_id cu) = Some w"
  shows
   "fst (addMoney s amount) =
      Inr \<lparr>tx_userId = user_id cu, tx_type = ''add_money'', tx_asset = ''USD'',
            tx_amount = amount, tx_counterparty = Some ''Noble Chain Support'',
            tx_status = ''completed'', tx_metadata = NoMeta\<rparr> \<and>
    wallets (snd (addMoney s amount)) =
      (wallets s)(user_id cu \<mapsto> w\<lparr>dollarBalance := jadd (dollarBalance w) amount\<rparr>) \<and>
    transactions (snd (addMoney s amount)) =
      transactions s @
      [\<lparr>tx_userId = user_id cu, tx_type = ''add_money'', tx_asset = ''USD'',
        tx_amount = amount, tx_counterparty = Some ''Noble Chain Support'',
        tx_status = ''completed'', tx_metadata = NoMeta\<rparr>]"
  using cu w
  by (simp add: addMoney_def getWallet_current createTransaction_result truthy_str_def)

theorem addMoney_credits_witness:
  "fst (addMoney demo_state (Fin 250)) =
      Inr \<lparr>tx_userId = ''a1'', tx_type = ''add_money'', tx_asset = ''USD'',
            tx_amount = Fin 250, tx_counterparty = Some ''Noble Chain Support'',
            tx_status = ''completed'', tx_metadata = NoMeta\<rparr> \<and>
   map_option dollarBalance (wallets (snd (addMoney demo_state (Fin 250))) ''a1'') =
      Some (Fin 1250) \<and>
   length (transactions (snd (addMoney demo_state (Fin 250)))) = 1"
proof -
  have w: "wallets demo_state (user_id demo_alice) =
      Some \<lparr>userId = ''a1'', dollarBalance = Fin 1000,
            assets = [''BTC'' \<mapsto> \<lparr>balance = Fin 10, averageCost = Fin 100\<rparr>],
            totalValue = Fin 0\<rparr>"
    by (simp add: demo_current demo_wallets)
  have txs: "transactions demo_state = []"
    by (simp add: demo_state_def)
  show ?thesis
    using addMoney_credits_any_amount [OF demo_current(1) w, of "Fin 250"]
    by (simp add: demo_current demo_sums txs del: jadd.simps)
qed

text \<open>
  The claim as stated fails: \<open>addMoney(-50)\<close> throws nothing and lowers the balance
  from 1000 to 950.
\<close>

theorem addMoney_accepts_negative_amount:
  "fst (addMoney demo_state (Fin (- 50))) =
      Inr \<lparr>tx_userId = ''a1'', tx_type = ''add_money'', tx_asset = ''USD'',
            tx_amount = Fin (- 50), tx_counterparty = Some ''Noble Chain Support'',
            tx_status = ''completed'', tx_metadata = NoMeta\<rparr> \<and>
   map_option dollarBalance (wallets (snd (addMoney demo_state (Fin (- 50)))) ''a1'') =
      Some (Fin 950)"
  by (simp add: addMoney_def getWallet_current [OF demo_current(1)] demo_current demo_wallets
      demo_sums createTransaction_result truthy_str_def del: jadd.simps)

text \<open>
  The sum is a binary64 sum: a dollar added to a balance of \<open>2^53\<close> dollars leaves the
  balance as it was.
\<close>

lemma addMoney_rounds:
  "map_option dollarBalance
     (wallets (snd (addMoney (snd (updateUserBalance demo_state ''a1'' ''USD''
                                    (Fin 9007199254740992))) (Fin 1))) ''a1'') =
   Some (Fin 9007199254740992)"
proof -
  have u: "snd (updateUserBalance demo_state ''a1'' ''USD'' (Fin 9007199254740992)) =
      demo_state\<lparr>wallets := (wallets demo_state)(''a1'' \<mapsto>
        \<lparr>userId = ''a1'', dollarBalance = Fin 9007199254740992,
         assets = [''BTC'' \<mapsto> \<lparr>balance = Fin 10, averageCost = Fin 100\<rparr>],
         totalValue = Fin 0\<rparr>)\<rparr>"
    by (simp add: updateUserBalance_def getWallet_def wallet_key_def demo_wallets)
  show ?thesis
    unfolding u
    by (simp add: addMoney_def getWallet_def wallet_key_def current_key_def demo_current
        demo_sums del: jadd.simps)
qed

subsection \<open>Buying\<close>

lemma position_overwrite:
  "(q :: asset_position)\<lparr>balance := x, averageCost := y\<rparr> = \<lparr>balance = x, averageCost = y\<rparr>"
  by (cases q) simp

lemma demo_prices:
  "market_price demo_state ''BTC'' = Fin 45000"
  "market_price demo_state ''ETH'' = Fin 3000"
  "market_price demo_state ''XYZ'' = Fin 0"
  by (simp_all add: market_price_def demo_state_def demo_market_def truthy_num_def)

lemma demo_not_inherited:
  "\<not> inherited ''BTC''" "\<not> inherited ''ETH''" "\<not> inherited ''XYZ''" "\<not> inherited ''USD''"
  by (simp_all add: inherited_def inherited_names_def)

lemma demo_buy_arith:
  "jmul (Fin 110) (Fin 5) = Fin 550"
  "jmul (Fin 10) (Fin 100) = Fin 1000"
  "jadd (Fin 1000) (Fin 550) = Fin 1550"
  "jadd (Fin 10) (Fin 5) = Fin 15"
  "jdiv (Fin 1550) (Fin 15) = Fin (7271436898358613 / 70368744177664)"
  "jdiv (Fin 550) (Fin 5) = Fin 110"
  "jsub (Fin 1000) (Fin 550) = Fin 450"
  "jlt (Fin 1000) (Fin 550) = False"
  by code_simp+

text \<open>
  C6, as amended. The unit price of a purchase is the \<open>price\<close> argument when it is
  given and neither \<open>0\<close> nor \<open>NaN\<close>, and the market quote otherwise (\<open>0\<close> when
  the market has no non-zero quote for the asset); \<open>cost\<close> is the unit price times
  the amount. When \<open>buyAsset\<close> succeeds for an asset whose identifier is not the name
  of an inherited property, with the prior position read as balance 0 at average cost
  0 when the asset was not held: the dollar balance was not below the cost and is
  lowered by the cost; the position's balance is the old balance plus the amount; its
  average cost is (old balance * old average cost + cost) / (old balance + amount);
  one \<open>buy\<close> transaction is appended. Every operation is the binary64 one.
\<close>

theorem buyAsset_weighted_average:
  assumes ok: "fst (buyAsset s a amount p) = Inr t"
    and cu: "currentUser s = Some cu"
    and w: "wallets s (user_id cu) = Some w"
    and a: "\<not> inherited a"
    and quote: "quote = (case marketData s a of
                           None \<Rightarrow> Fin 0
                         | Some e \<Rightarrow> if price e = Fin 0 \<or> price e = NaN then Fin 0 else price e)"
    and unit: "unit = (case p of
                         None \<Rightarrow> quote
                       | Some x \<Rightarrow> if x = Fin 0 \<or> x = NaN then quote else x)"
    and cost: "cost = jmul unit amount"
    and old: "old = (case assets w a of
                       None \<Rightarrow> \<lparr>balance = Fin 0, averageCost = Fin 0\<rparr>
                     | Some q \<Rightarrow> q)"
  shows
   "\<not> jlt (dollarBalance w) cost \<and>
    wallets (snd (buyAsset s a amount p)) =
      (wallets s)(user_id cu \<mapsto>
        w\<lparr>dollarBalance := jsub (dollarBalance w) cost,
          assets := (assets w)(a \<mapsto>
            \<lparr>balance = jadd (balance old) amount,
             averageCost =
               jdiv (jadd (jmul (balance old) (averageCost old)) cost)
                    (jadd (balance old) amount)\<rparr>)\<rparr>) \<and>
    t = \<lparr>tx_userId = user_id cu, tx_type = ''buy'', tx_asset = a, tx_amount = amount,
          tx_counterparty = None, tx_status = ''completed'',
          tx_metadata = BuyMeta cost (jdiv cost amount)\<rparr> \<and>
    transactions (snd (buyAsset s a amount p)) = transactions s @ [t]"
proof -
  have q: "quote = market_price s a"
    by (auto simp: quote market_price_def truthy_num_def split: option.split)
  have u: "unit = unit_price s a p"
    by (auto simp: unit q unit_price_def truthy_num_def split: option.split)
  have c: "cost = jmul (unit_price s a p) amount"
    by (simp add: cost u)
  have o: "old = position_or_new (assets w) a"
    by (simp add: old position_or_new_def)
  have nlt: "\<not> jlt (dollarBalance w) cost"
    using ok cu w unfolding c
    by (auto simp: buyAsset_def getWallet_current Let_def split: if_splits)
  have run: "buyAsset s a amount p =
      createTransaction
        (s\<lparr>wallets := (wallets s)(user_id cu \<mapsto>
            w\<lparr>dollarBalance := jsub (dollarBalance w) cost,
              assets := (assets w)(a \<mapsto>
                old\<lparr>balance := jadd (balance old) amount,
                    averageCost :=
                      jdiv (jadd (jmul (balance old) (averageCost old)) cost)
                           (jadd (balance old) amount)\<rparr>)\<rparr>)\<rparr>)
        ''buy'' a amount None None (BuyMeta cost (jdiv cost amount))"
    using cu w nlt unfolding c o by (simp add: buyAsset_def getWallet_current Let_def)
  have wal: "wallets (snd (buyAsset s a amount p)) =
      (wallets s)(user_id cu \<mapsto>
        w\<lparr>dollarBalance := jsub (dollarBalance w) cost,
          assets := (assets w)(a \<mapsto>
            \<lparr>balance = jadd (balance old) amount,
             averageCost =
               jdiv (jadd (jmul (balance old) (averageCost old)) cost)
                    (jadd (balance old) amount)\<rparr>)\<rparr>)"
    by (simp add: run position_overwrite)
  have tx: "t = \<lparr>tx_userId = user_id cu, tx_type = ''buy'', tx_asset = a, tx_amount = amount,
          tx_counterparty = None, tx_status = ''completed'',
          tx_metadata = BuyMeta cost (jdiv cost amount)\<rparr>"
    using ok cu by (simp add: run createTransaction_result truthy_str_def)
  have txs: "transactions (snd (buyAsset s a amount p)) = transactions s @ [t]"
    using ok unfolding run by (simp add: createTransaction_transactions)
  show ?thesis
    using nlt wal tx txs by (intro conjI)
qed

text \<open>
  The example of the specification: 10 held at 100, 5 bought at 110. The average cost
  is the binary64 value of \<open>1550 / 15\<close>, which prints as 103.33333333333333.
\<close>

theorem buyAsset_weighted_average_witness:
  "fst (buyAsset demo_state ''BTC'' (Fin 5) (Some (Fin 110))) =
     Inr \<lparr>tx_userId = ''a1'', tx_type = ''buy'', tx_asset = ''BTC'', tx_amount = Fin 5,
          tx_counterparty = None, tx_status = ''completed'',
          tx_metadata = BuyMeta (Fin 550) (Fin 110)\<rparr> \<and>
   map_option (\<lambda>w. (dollarBalance w, assets w ''BTC''))
     (wallets (snd (buyAsset demo_state ''BTC'' (Fin 5) (Some (Fin 110)))) ''a1'') =
     Some (Fin 450,
           Some \<lparr>balance = Fin 15,
                 averageCost = Fin (7271436898358613 / 70368744177664)\<rparr>)"
proof -
  have w: "wallets demo_state (user_id demo_alice) =
      Some \<lparr>userId = ''a1'', dollarBalance = Fin 1000,
            assets = [''BTC'' \<mapsto> \<lparr>balance = Fin 10, averageCost = Fin 100\<rparr>],
            totalValue = Fin 0\<rparr>"
    by (simp add: demo_current demo_wallets)
  have ok: "fst (buyAsset demo_state ''BTC'' (Fin 5) (Some (Fin 110))) =
     Inr \<lparr>tx_userId = ''a1'', tx_type = ''buy'', tx_asset = ''BTC'', tx_amount = Fin 5,
          tx_counterparty = None, tx_status = ''completed'',
          tx_metadata = BuyMeta (Fin 550) (Fin 110)\<rparr>"
    by (simp add: buyAsset_def getWallet_current [OF demo_current(1)] demo_current
        demo_wallets unit_price_def truthy_num_def position_or_new_def Let_def
        createTransaction_result truthy_str_def demo_buy_arith
        del: jadd.simps jmul.simps jdiv.simps jlt.simps)
  show ?thesis
    using buyAsset_weighted_average [OF ok demo_current(1) w demo_not_inherited(1)
        refl refl refl refl] ok
    by (simp add: demo_current demo_buy_arith del: jadd.simps jmul.simps jdiv.simps jlt.simps)
qed

text \<open>
  The claim's \<open>cost = price * amount\<close> fails for the price \<open>0\<close>: \<open>price || ...\<close>
  replaces it by the market quote. Buying \<open>1/64\<close> BTC at price 0 with BTC quoted at
  45000 costs 703.125 dollars, not nothing: the balance falls from 1000 to 296.875.
\<close>

lemma demo_buy_free_arith:
  "jmul (Fin 45000) (Fin (1 / 64)) = Fin (5625 / 8)"
  "jsub (Fin 1000) (Fin (5625 / 8)) = Fin (2375 / 8)"
  "jdiv (Fin (5625 / 8)) (Fin (1 / 64)) = Fin 45000"
  "jlt (Fin 1000) (Fin (5625 / 8)) = False"
  "jmul (Fin 0) (Fin (1 / 64)) = Fin 0"
  by code_simp+

theorem buyAsset_price_zero_charged_at_quote:
  "jmul (Fin 0) (Fin (1 / 64)) = Fin 0 \<and>
   fst (buyAsset demo_state ''BTC'' (Fin (1 / 64)) (Some (Fin 0))) =
     Inr \<lparr>tx_userId = ''a1'', tx_type = ''buy'', tx_asset = ''BTC'', tx_amount = Fin (1 / 64),
          tx_counterparty = None, tx_status = ''completed'',
          tx_metadata = BuyMeta (Fin (5625 / 8)) (Fin 45000)\<rparr> \<and>
   map_option dollarBalance
     (wallets (snd (buyAsset demo_state ''BTC'' (Fin (1 / 64)) (Some (Fin 0)))) ''a1'') =
     Some (Fin (2375 / 8))"
  by (simp add: buyAsset_def getWallet_current [OF demo_current(1)] demo_current
      demo_wallets unit_price_def truthy_num_def demo_prices Let_def
      createTransaction_result truthy_str_def demo_buy_free_arith
      del: jadd.simps jmul.simps jdiv.simps jlt.simps)

subsection \<open>Swapping\<close>

lemma pin_gate_market [simp]:
  "market_price (snd (pin_gate s u p)) a = market_price s a"
  by (simp add: market_price_def)

lemma pin_gate_current_key [simp]:
  "current_key (snd (pin_gate s u p)) = current_key s"
  by (simp add: current_key_def)

lemma pin_gate_wallet [simp]:
  "getWallet (snd (pin_gate s u p)) uid = getWallet s uid"
  by (simp add: getWallet_def wallet_key_def split: option.split)

lemma pin_gate_cases:
  obtains "fst (pin_gate s u p) = Inr True"
  | e where "fst (pin_gate s u p) = Inl e"
  using pin_gate_result [of s u p] by auto

text \<open>\<open>swapAssets\<close> once the PIN gate has let the call through.\<close>

lemma swapAssets_after_gate:
  assumes cu: "currentUser s = Some cu"
    and w: "wallets s (user_id cu) = Some w"
    and fp: "assets w f = Some fromAsset"
    and gate: "fst (pin_gate s (user_id cu) pin) = Inr True"
    and enough: "\<not> jlt (balance fromAsset) amount"
  shows "swapAssets s f g amount pin =
     createTransaction
       ((snd (pin_gate s (user_id cu) pin))
          \<lparr>wallets := (wallets s)(user_id cu \<mapsto>
             w\<lparr>assets := swap_positions (assets w) f g fromAsset amount
                            (jdiv (jmul amount (market_price s f)) (market_price s g))\<rparr>)\<rparr>)
       ''swap'' f amount None None
       (SwapMeta g (jdiv (jmul amount (market_price s f)) (market_price s g))
          (jdiv (market_price s f) (market_price s g)))"
  unfolding swapAssets_def
  using w fp enough
  by (simp add: cu bind_r_Inr [OF gate] getWallet_current [OF cu] Let_def)

lemma swapAssets_success_gate:
  assumes cu: "currentUser s = Some cu"
    and ok: "fst (swapAssets s f g amount pin) = Inr t"
  shows "fst (pin_gate s (user_id cu) pin) = Inr True"
proof (cases s "user_id cu" pin rule: pin_gate_cases)
  case 1
  then show ?thesis .
next
  case (2 e)
  then have "fst (swapAssets s f g amount pin) = Inl e"
    by (simp add: swapAssets_def cu bind_r_Inl [of _ e])
  with ok show ?thesis by simp
qed

lemma swapAssets_success_holding:
  assumes cu: "currentUser s = Some cu"
    and w: "wallets s (user_id cu) = Some w"
    and ok: "fst (swapAssets s f g amount pin) = Inr t"
  shows "\<exists>fromAsset. assets w f = Some fromAsset \<and> \<not> jlt (balance fromAsset) amount"
proof (cases "assets w f")
  case None
  then have "fst (swapAssets s f g amount pin) = Inl (Error ''Insufficient source asset balance'')"
    using w
    by (simp add: swapAssets_def cu bind_r_Inr [OF swapAssets_success_gate [OF cu ok]]
        getWallet_current [OF cu])
  with ok show ?thesis by simp
next
  case (Some fromAsset)
  have "\<not> jlt (balance fromAsset) amount"
  proof
    assume "jlt (balance fromAsset) amount"
    then have "fst (swapAssets s f g amount pin) =
        Inl (Error ''Insufficient source asset balance'')"
      using w Some
      by (simp add: swapAssets_def cu bind_r_Inr [OF swapAssets_success_gate [OF cu ok]]
          getWallet_current [OF cu])
    with ok show False by simp
  qed
  with Some show ?thesis by simp
qed

lemma swap_positions_distinct:
  assumes "f \<noteq> g"
  shows "swap_positions a f g fromAsset amount x g =
           Some ((position_or_new a g)\<lparr>balance := jadd (balance (position_or_new a g)) x\<rparr>)"
    and "swap_positions a f g fromAsset amount x f =
           (if jsub (balance fromAsset) amount = Fin 0 then None
            else Some (fromAsset\<lparr>balance := jsub (balance fromAsset) amount\<rparr>))"
    and "k \<noteq> f \<Longrightarrow> k \<noteq> g \<Longrightarrow> swap_positions a f g fromAsset amount x k = a k"
  using assms by (simp_all add: swap_positions_def position_or_new_def Let_def)

lemma swap_positions_same:
  "swap_positions a f f fromAsset amount x f =
     (if jadd (jsub (balance fromAsset) amount) x = Fin 0 then None
      else Some (fromAsset\<lparr>balance := jadd (jsub (balance fromAsset) amount) x\<rparr>))"
  "k \<noteq> f \<Longrightarrow> swap_positions a f f fromAsset amount x k = a k"
  by (simp_all add: swap_positions_def position_or_new_def Let_def)

lemma jdiv_by_zero: "jdiv x (Fin 0) = PInf \<or> jdiv x (Fin 0) = NInf \<or> jdiv x (Fin 0) = NaN"
  by (cases x) (simp_all add: inf_of_sign_def)

text \<open>
  C9, as amended. The price of an asset is its market quote, and \<open>0\<close> when the market
  has no entry for it or quotes \<open>0\<close> or \<open>NaN\<close>; \<open>toAmount\<close> is
  \<open>amount * priceOf(from) / priceOf(to)\<close> in binary64 arithmetic. For a current user
  and two asset identifiers that are not names of inherited properties: once the PIN
  gate has let the call through and the held balance is not below the amount,
  \<open>swapAssets\<close> returns its \<open>swap\<close> transaction whatever the two prices are. When
  the call returns, the source asset was held with a balance not below the amount, the
  dollar balance and every other position are unchanged, and for two different assets
  the source position is debited by the amount, and removed when that leaves exactly
  0, and the target position is credited by \<open>toAmount\<close> with its average cost
  unchanged, or created with balance \<open>0 + toAmount\<close> at average cost 0. For one and
  the same asset the position is debited and credited in turn, and removed only when
  the balance after both is 0. With a target price of 0 \<open>toAmount\<close> is \<open>Infinity\<close>,
  \<open>-Infinity\<close> or \<open>NaN\<close>.
\<close>

theorem swapAssets_conversion:
  assumes cu: "currentUser s = Some cu"
    and w: "wallets s (user_id cu) = Some w"
    and nf: "\<not> inherited f"
    and ng: "\<not> inherited g"
    and fp: "fromPrice = (case marketData s f of
                            None \<Rightarrow> Fin 0
                          | Some e \<Rightarrow> if price e = Fin 0 \<or> price e = NaN then Fin 0 else price e)"
    and tp: "toPrice = (case marketData s g of
                          None \<Rightarrow> Fin 0
                        | Some e \<Rightarrow> if price e = Fin 0 \<or> price e = NaN then Fin 0 else price e)"
    and ta: "toAmount = jdiv (jmul amount fromPrice) toPrice"
  shows
   "(\<forall>fromAsset. assets w f = Some fromAsset \<and>
       fst (pin_gate s (user_id cu) pin) = Inr True \<and> \<not> jlt (balance fromAsset) amount \<longrightarrow>
       fst (swapAssets s f g amount pin) =
         Inr \<lparr>tx_userId = user_id cu, tx_type = ''swap'', tx_asset = f, tx_amount = amount,
               tx_counterparty = None, tx_status = ''completed'',
               tx_metadata = SwapMeta g toAmount (jdiv fromPrice toPrice)\<rparr>) \<and>
    (fst (swapAssets s f g amount pin) = Inr t \<longrightarrow>
       (\<exists>fromAsset w'.
          assets w f = Some fromAsset \<and> \<not> jlt (balance fromAsset) amount \<and>
          wallets (snd (swapAssets s f g amount pin)) (user_id cu) = Some w' \<and>
          dollarBalance w' = dollarBalance w \<and>
          (\<forall>k. k \<noteq> f \<and> k \<noteq> g \<longrightarrow> assets w' k = assets w k) \<and>
          (f \<noteq> g \<longrightarrow>
             assets w' f =
               (if jsub (balance fromAsset) amount = Fin 0 then None
                else Some (fromAsset\<lparr>balance := jsub (balance fromAsset) amount\<rparr>)) \<and>
             (assets w g = None \<longrightarrow>
                assets w' g = Some \<lparr>balance = jadd (Fin 0) toAmount, averageCost = Fin 0\<rparr>) \<and>
             (\<forall>toAsset. assets w g = Some toAsset \<longrightarrow>
                assets w' g = Some (toAsset\<lparr>balance := jadd (balance toAsset) toAmount\<rparr>))) \<and>
          (f = g \<longrightarrow>
             assets w' f =
               (if jadd (jsub (balance fromAsset) amount) toAmount = Fin 0 then None
                else Some (fromAsset\<lparr>balance :=
                        jadd (jsub (balance fromAsset) amount) toAmount\<rparr>))))) \<and>
    (toPrice = Fin 0 \<longrightarrow> toAmount = PInf \<or> toAmount = NInf \<or> toAmount = NaN)"
proof -
  have fp': "fromPrice = market_price s f"
    by (auto simp: fp market_price_def truthy_num_def split: option.split)
  have tp': "toPrice = market_price s g"
    by (auto simp: tp market_price_def truthy_num_def split: option.split)
  have ta': "toAmount = jdiv (jmul amount (market_price s f)) (market_price s g)"
    by (simp add: ta fp' tp')
  have succ: "fst (swapAssets s f g amount pin) =
         Inr \<lparr>tx_userId = user_id cu, tx_type = ''swap'', tx_asset = f, tx_amount = amount,
               tx_counterparty = None, tx_status = ''completed'',
               tx_metadata = SwapMeta g toAmount (jdiv fromPrice toPrice)\<rparr>"
    if "assets w f = Some fromAsset" "fst (pin_gate s (user_id cu) pin) = Inr True"
      "\<not> jlt (balance fromAsset) amount" for fromAsset
    using cu unfolding ta' fp' tp'
    by (simp add: swapAssets_after_gate [OF cu w that] createTransaction_result truthy_str_def)
  have post: "\<exists>fromAsset w'.
          assets w f = Some fromAsset \<and> \<not> jlt (balance fromAsset) amount \<and>
          wallets (snd (swapAssets s f g amount pin)) (user_id cu) = Some w' \<and>
          dollarBalance w' = dollarBalance w \<and>
          (\<forall>k. k \<noteq> f \<and> k \<noteq> g \<longrightarrow> assets w' k = assets w k) \<and>
          (f \<noteq> g \<longrightarrow>
             assets w' f =
               (if jsub (balance fromAsset) amount = Fin 0 then None
                else Some (fromAsset\<lparr>balance := jsub (balance fromAsset) amount\<rparr>)) \<and>
             (assets w g = None \<longrightarrow>
                assets w' g = Some \<lparr>balance = jadd (Fin 0) toAmount, averageCost = Fin 0\<rparr>) \<and>
             (\<forall>toAsset. assets w g = Some toAsset \<longrightarrow>
                assets w' g = Some (toAsset\<lparr>balance := jadd (balance toAsset) toAmount\<rparr>))) \<and>
          (f = g \<longrightarrow>
             assets w' f =
               (if jadd (jsub (balance fromAsset) amount) toAmount = Fin 0 then None
                else Some (fromAsset\<lparr>balance :=
                        jadd (jsub (balance fromAsset) amount) toAmount\<rparr>)))"
    if ok: "fst (swapAssets s f g amount pin) = Inr t"
  proof -
    obtain fromAsset where held: "assets w f = Some fromAsset"
      and enough: "\<not> jlt (balance fromAsset) amount"
      using swapAssets_success_holding [OF cu w ok] by blast
    let ?A = "swap_positions (assets w) f g fromAsset amount toAmount"
    have w': "wallets (snd (swapAssets s f g amount pin)) (user_id cu) = Some (w\<lparr>assets := ?A\<rparr>)"
      unfolding ta'
      by (simp add: swapAssets_after_gate [OF cu w held swapAssets_success_gate [OF cu ok] enough])
    have others: "\<forall>k. k \<noteq> f \<and> k \<noteq> g \<longrightarrow> ?A k = assets w k"
      by (cases "f = g") (simp_all add: swap_positions_same swap_positions_distinct)
    have d1: "?A f =
               (if jsub (balance fromAsset) amount = Fin 0 then None
                else Some (fromAsset\<lparr>balance := jsub (balance fromAsset) amount\<rparr>))"
      if "f \<noteq> g"
      by (rule swap_positions_distinct(2) [OF that])
    have d2: "?A g = Some \<lparr>balance = jadd (Fin 0) toAmount, averageCost = Fin 0\<rparr>"
      if "f \<noteq> g" "assets w g = None"
      unfolding swap_positions_distinct(1) [OF that(1)]
      by (simp add: position_or_new_def that(2) del: jadd.simps)
    have d3: "?A g = Some (toAsset\<lparr>balance := jadd (balance toAsset) toAmount\<rparr>)"
      if "f \<noteq> g" "assets w g = Some toAsset" for toAsset
      unfolding swap_positions_distinct(1) [OF that(1)]
      by (simp add: position_or_new_def that(2))
    have dist: "f \<noteq> g \<longrightarrow>
             ?A f =
               (if jsub (balance fromAsset) amount = Fin 0 then None
                else Some (fromAsset\<lparr>balance := jsub (balance fromAsset) amount\<rparr>)) \<and>
             (assets w g = None \<longrightarrow>
                ?A g = Some \<lparr>balance = jadd (Fin 0) toAmount, averageCost = Fin 0\<rparr>) \<and>
             (\<forall>toAsset. assets w g = Some toAsset \<longrightarrow>
                ?A g = Some (toAsset\<lparr>balance := jadd (balance toAsset) toAmount\<rparr>))"
      using d1 d2 d3 by blast
    have same: "f = g \<longrightarrow>
             ?A f =
               (if jadd (jsub (balance fromAsset) amount) toAmount = Fin 0 then None
                else Some (fromAsset\<lparr>balance := jadd (jsub (balance fromAsset) amount) toAmount\<rparr>))"
      using swap_positions_same(1) [of "assets w" f fromAsset amount toAmount] by auto
    have fields: "dollarBalance (w\<lparr>assets := ?A\<rparr>) = dollarBalance w"
      "assets (w\<lparr>assets := ?A\<rparr>) = ?A"
      by simp_all
    show ?thesis
      apply (rule exI [of _ fromAsset])
      apply (rule exI [of _ "w\<lparr>assets := ?A\<rparr>"])
      unfolding fields
      using held enough w' others dist same by blast
  qed
  have inf: "toAmount = PInf \<or> toAmount = NInf \<or> toAmount = NaN" if "toPrice = Fin 0"
    unfolding ta that by (rule jdiv_by_zero)
  show ?thesis
  proof (intro conjI)
    show "\<forall>fromAsset. assets w f = Some fromAsset \<and>
       fst (pin_gate s (user_id cu) pin) = Inr True \<and> \<not> jlt (balance fromAsset) amount \<longrightarrow>
       fst (swapAssets s f g amount pin) =
         Inr \<lparr>tx_userId = user_id cu, tx_type = ''swap'', tx_asset = f, tx_amount = amount,
               tx_counterparty = None, tx_status = ''completed'',
               tx_metadata = SwapMeta g toAmount (jdiv fromPrice toPrice)\<rparr>"
      using succ by simp
  next
    show "toPrice = Fin 0 \<longrightarrow> toAmount = PInf \<or> toAmount = NInf \<or> toAmount = NaN"
      by (rule impI) (rule inf)
  qed (rule impI, rule post, assumption)
qed

lemma demo_gate: "fst (pin_gate demo_state ''a1'' (Some (units ''1234''))) = Inr True"
proof -
  have "units ''1234'' \<noteq> []"
    by (simp add: units_def)
  then show ?thesis
    using demo_has_pin demo_hash_nonempty
    by (simp add: pin_gate_def verify_result demo_pin_a truthy_str_def)
qed

lemma demo_market_entries:
  "marketData demo_state ''BTC'' =
     Some \<lparr>name = ''Bitcoin'', symbol = ''BTC'', price = Fin 45000, change = Fin 0\<rparr>"
  "marketData demo_state ''ETH'' =
     Some \<lparr>name = ''Ethereum'', symbol = ''ETH'', price = Fin 3000, change = Fin 0\<rparr>"
  "marketData demo_state ''XYZ'' = None"
  by (simp_all add: demo_state_def demo_market_def)

lemma demo_swap_arith:
  "jmul (Fin 1) (Fin 45000) = Fin 45000"
  "jdiv (Fin 45000) (Fin 3000) = Fin 15"
  "jsub (Fin 10) (Fin 1) = Fin 9"
  "jadd (Fin 0) (Fin 15) = Fin 15"
  "jlt (Fin 10) (Fin 1) = False"
  "jmul (Fin 10) (Fin 45000) = Fin 450000"
  "jdiv (Fin 45000) (Fin 0) = PInf"
  "jdiv (Fin 450000) (Fin 0) = PInf"
  "jsub (Fin 10) (Fin 10) = Fin 0"
  "jadd (Fin 0) PInf = PInf"
  "jlt (Fin 10) (Fin 10) = False"
  "jdiv (Fin 450000) (Fin 45000) = Fin 10"
  "jdiv (Fin 45000) (Fin 45000) = Fin 1"
  "jadd (Fin 0) (Fin 10) = Fin 10"
  by code_simp+

text \<open>
  One BTC for ETH at 45000 and 3000, and the whole holding for an asset that has no
  market entry.
\<close>

theorem swapAssets_conversion_witness:
  "fst (swapAssets demo_state ''BTC'' ''ETH'' (Fin 1) (Some (units ''1234''))) =
     Inr \<lparr>tx_userId = ''a1'', tx_type = ''swap'', tx_asset = ''BTC'', tx_amount = Fin 1,
          tx_counterparty = None, tx_status = ''completed'',
          tx_metadata = SwapMeta ''ETH'' (Fin 15) (Fin 15)\<rparr> \<and>
   map_option (\<lambda>w. (assets w ''BTC'', assets w ''ETH''))
     (wallets (snd (swapAssets demo_state ''BTC'' ''ETH'' (Fin 1) (Some (units ''1234''))))
        ''a1'') =
     Some (Some \<lparr>balance = Fin 9, averageCost = Fin 100\<rparr>,
           Some \<lparr>balance = Fin 15, averageCost = Fin 0\<rparr>) \<and>
   fst (swapAssets demo_state ''BTC'' ''XYZ'' (Fin 10) (Some (units ''1234''))) =
     Inr \<lparr>tx_userId = ''a1'', tx_type = ''swap'', tx_asset = ''BTC'', tx_amount = Fin 10,
          tx_counterparty = None, tx_status = ''completed'',
          tx_metadata = SwapMeta ''XYZ'' PInf PInf\<rparr> \<and>
   map_option (\<lambda>w. (assets w ''BTC'', assets w ''XYZ''))
     (wallets (snd (swapAssets demo_state ''BTC'' ''XYZ'' (Fin 10) (Some (units ''1234''))))
        ''a1'') =
     Some (None, Some \<lparr>balance = PInf, averageCost = Fin 0\<rparr>)"
proof -
  have w: "wallets demo_state (user_id demo_alice) =
      Some \<lparr>userId = ''a1'', dollarBalance = Fin 1000,
            assets = [''BTC'' \<mapsto> \<lparr>balance = Fin 10, averageCost = Fin 100\<rparr>],
            totalValue = Fin 0\<rparr>"
    by (simp add: demo_current demo_wallets)
  note eth = swapAssets_conversion [OF demo_current(1) w demo_not_inherited(1)
      demo_not_inherited(2) refl refl refl, of "Some (units ''1234'')" "Fin 1"
      "\<lparr>tx_userId = ''a1'', tx_type = ''swap'', tx_asset = ''BTC'', tx_amount = Fin 1,
          tx_counterparty = None, tx_status = ''completed'',
          tx_metadata = SwapMeta ''ETH'' (Fin 15) (Fin 15)\<rparr>"]
  note xyz = swapAssets_conversion [OF demo_current(1) w demo_not_inherited(1)
      demo_not_inherited(3) refl refl refl, of "Some (units ''1234'')" "Fin 10"
      "\<lparr>tx_userId = ''a1'', tx_type = ''swap'', tx_asset = ''BTC'', tx_amount = Fin 10,
          tx_counterparty = None, tx_status = ''completed'',
          tx_metadata = SwapMeta ''XYZ'' PInf PInf\<rparr>"]
  have e1: "fst (swapAssets demo_state ''BTC'' ''ETH'' (Fin 1) (Some (units ''1234''))) =
     Inr \<lparr>tx_userId = ''a1'', tx_type = ''swap'', tx_asset = ''BTC'', tx_amount = Fin 1,
          tx_counterparty = None, tx_status = ''completed'',
          tx_metadata = SwapMeta ''ETH'' (Fin 15) (Fin 15)\<rparr>"
    using eth demo_gate
    by (simp add: demo_current demo_market_entries demo_swap_arith
        del: jadd.simps jmul.simps jdiv.simps jlt.simps)
  have e2: "map_option (\<lambda>w. (assets w ''BTC'', assets w ''ETH''))
     (wallets (snd (swapAssets demo_state ''BTC'' ''ETH'' (Fin 1) (Some (units ''1234''))))
        ''a1'') =
     Some (Some \<lparr>balance = Fin 9, averageCost = Fin 100\<rparr>,
           Some \<lparr>balance = Fin 15, averageCost = Fin 0\<rparr>)"
    using eth e1
    by (auto simp: demo_current demo_market_entries demo_swap_arith
        simp del: jadd.simps jmul.simps jdiv.simps jlt.simps)
  have d1: "fst (swapAssets demo_state ''BTC'' ''XYZ'' (Fin 10) (Some (units ''1234''))) =
     Inr \<lparr>tx_userId = ''a1'', tx_type = ''swap'', tx_asset = ''BTC'', tx_amount = Fin 10,
          tx_counterparty = None, tx_status = ''completed'',
          tx_metadata = SwapMeta ''XYZ'' PInf PInf\<rparr>"
    using xyz demo_gate
    by (simp add: demo_current demo_market_entries demo_swap_arith
        del: jadd.simps jmul.simps jdiv.simps jlt.simps)
  have d2: "map_option (\<lambda>w. (assets w ''BTC'', assets w ''XYZ''))
     (wallets (snd (swapAssets demo_state ''BTC'' ''XYZ'' (Fin 10) (Some (units ''1234''))))
        ''a1'') =
     Some (None, Some \<lparr>balance = PInf, averageCost = Fin 0\<rparr>)"
    using xyz d1
    by (auto simp: demo_current demo_market_entries demo_swap_arith
        simp del: jadd.simps jmul.simps jdiv.simps jlt.simps)
  show ?thesis
    using e1 e2 d1 d2 by simp
qed

text \<open>
  The converted amount is a binary64 value: one ETH at 3000 for BTC at 45000 gives the
  nearest double to \<open>1/15\<close>, which prints as 0.06666666666666667.
\<close>

lemma swap_amount_is_rounded:
  "jdiv (jmul (Fin 1) (Fin 3000)) (Fin 45000) = Fin (4803839602528529 / 72057594037927936)"
  by code_simp

text \<open>
  The claim's debit fails when source and target are the same asset: swapping the
  whole holding of 10 BTC for BTC returns normally and leaves the position as it was,
  balance 10 at average cost 100, neither debited nor removed.
\<close>

theorem swapAssets_same_asset_keeps_holding:
  "fst (swapAssets demo_state ''BTC'' ''BTC'' (Fin 10) (Some (units ''1234''))) =
     Inr \<lparr>tx_userId = ''a1'', tx_type = ''swap'', tx_asset = ''BTC'', tx_amount = Fin 10,
          tx_counterparty = None, tx_status = ''completed'',
          tx_metadata = SwapMeta ''BTC'' (Fin 10) (Fin 1)\<rparr> \<and>
   map_option (\<lambda>w. assets w ''BTC'')
     (wallets (snd (swapAssets demo_state ''BTC'' ''BTC'' (Fin 10) (Some (units ''1234''))))
        ''a1'') =
     Some (Some \<lparr>balance = Fin 10, averageCost = Fin 100\<rparr>)"
proof -
  have w: "wallets demo_state (user_id demo_alice) =
      Some \<lparr>userId = ''a1'', dollarBalance = Fin 1000,
            assets = [''BTC'' \<mapsto> \<lparr>balance = Fin 10, averageCost = Fin 100\<rparr>],
            totalValue = Fin 0\<rparr>"
    by (simp add: demo_current demo_wallets)
  have gate: "fst (pin_gate demo_state (user_id demo_alice) (Some (units ''1234''))) = Inr True"
    using demo_gate by (simp add: demo_current)
  have enough: "\<not> jlt (balance \<lparr>balance = Fin 10, averageCost = Fin 100\<rparr>) (Fin 10)"
    by simp
  show ?thesis
    unfolding swapAssets_after_gate [OF demo_current(1) w _ gate enough, of "''BTC''" "''BTC''",
        simplified]
    by (simp add: createTransaction_result truthy_str_def demo_current demo_prices
        swap_positions_same demo_swap_arith
        del: jadd.simps jmul.simps jdiv.simps jlt.simps)
qed

subsection \<open>Transfers\<close>

lemma send_records_frame [simp]:
  "wallets (snd (send_records s cu rc amount a)) = wallets s"
  "pins (snd (send_records s cu rc amount a)) = pins s"
  "users (snd (send_records s cu rc amount a)) = users s"
  "currentUser (snd (send_records s cu rc amount a)) = currentUser s"
  "marketData (snd (send_records s cu rc amount a)) = marketData s"
  by (simp_all add: send_records_def bind_r_def createTransaction_result
      split: option.split)

lemma send_records_not_Error:
  "fst (send_records s cu rc amount a) \<noteq> Inl (Error msg)"
  by (simp add: send_records_def bind_r_def createTransaction_result split: option.split)

lemma send_records_result:
  assumes "currentUser s = Some cu'"
  shows "fst (send_records s cu rc amount a) =
      Inr (\<lparr>tx_userId = user_id cu', tx_type = ''send'', tx_asset = a, tx_amount = amount,
            tx_counterparty = Some (username rc), tx_status = ''completed'',
            tx_metadata = NoMeta\<rparr>,
           \<lparr>tx_userId = (if user_id rc = [] then user_id cu' else user_id rc),
            tx_type = ''receive'', tx_asset = a, tx_amount = amount,
            tx_counterparty = Some (username cu), tx_status = ''completed'',
            tx_metadata = NoMeta\<rparr>)"
    and "transactions (snd (send_records s cu rc amount a)) =
      transactions s @
      [\<lparr>tx_userId = user_id cu', tx_type = ''send'', tx_asset = a, tx_amount = amount,
        tx_counterparty = Some (username rc), tx_status = ''completed'',
        tx_metadata = NoMeta\<rparr>,
       \<lparr>tx_userId = (if user_id rc = [] then user_id cu' else user_id rc),
        tx_type = ''receive'', tx_asset = a, tx_amount = amount,
        tx_counterparty = Some (username cu), tx_status = ''completed'',
        tx_metadata = NoMeta\<rparr>]"
  using assms
  by (simp_all add: send_records_def bind_r_def createTransaction_result truthy_str_def)

lemma sendMoney_success_gate:
  assumes cu: "currentUser s = Some cu"
    and ok: "fst (sendMoney s r amount a pin) = Inr t"
  shows "fst (pin_gate s (user_id cu) pin) = Inr True"
proof (cases s "user_id cu" pin rule: pin_gate_cases)
  case 1
  then show ?thesis .
next
  case (2 e)
  then have "fst (sendMoney s r amount a pin) = Inl e"
    by (simp add: sendMoney_def cu bind_r_Inl [of _ e])
  with ok show ?thesis by simp
qed

text \<open>\<open>sendMoney\<close> once the PIN gate has let the call through.\<close>

lemma sendMoney_after_gate:
  assumes cu: "currentUser s = Some cu"
    and gate: "fst (pin_gate s (user_id cu) pin) = Inr True"
  shows "sendMoney s r amount a pin =
    (case find_by_username (users s) r of
       None \<Rightarrow> (Inl (Error ''Recipient not found''), snd (pin_gate s (user_id cu) pin))
     | Some rc \<Rightarrow>
        (case wallets s (user_id cu) of
           None \<Rightarrow> (Inl TypeError, snd (pin_gate s (user_id cu) pin))
         | Some w \<Rightarrow>
            if jlt (held w a) amount \<or> (a \<noteq> ''USD'' \<and> assets w a = None)
            then (Inl (Error (if a = ''USD'' then ''Insufficient balance''
                              else ''Insufficient asset balance'')),
                  snd (pin_gate s (user_id cu) pin))
            else
              (let w1 = (if a = ''USD''
                         then w\<lparr>dollarBalance := jsub (dollarBalance w) amount\<rparr>
                         else w\<lparr>assets := (assets w)(a \<mapsto>
                                (position_or_new (assets w) a)
                                  \<lparr>balance := jsub (held w a) amount\<rparr>)\<rparr>);
                   m1 = (wallets s)(user_id cu \<mapsto> w1)
               in case m1 (user_id rc) of
                    None \<Rightarrow>
                      (Inl TypeError, (snd (pin_gate s (user_id cu) pin))\<lparr>wallets := m1\<rparr>)
                  | Some rw \<Rightarrow>
                      send_records
                        ((snd (pin_gate s (user_id cu) pin))\<lparr>wallets := m1(user_id rc \<mapsto>
                            (if a = ''USD''
                             then rw\<lparr>dollarBalance := jadd (dollarBalance rw) amount\<rparr>
                             else rw\<lparr>assets := (assets rw)(a \<mapsto>
                                    (position_or_new (assets rw) a)
                                      \<lparr>balance := jadd (held rw a) amount\<rparr>)\<rparr>))\<rparr>)
                        cu rc amount a)))"
  unfolding sendMoney_def
  by (simp add: cu bind_r_Inr [OF gate] getWallet_current [OF cu] held_def Let_def
      position_or_new_def split: option.split)


lemma held_debit:
  "held (if a = ''USD'' then w\<lparr>dollarBalance := jsub (dollarBalance w) amount\<rparr>
         else w\<lparr>assets := (assets w)(a \<mapsto>
                (position_or_new (assets w) a)\<lparr>balance := jsub (held w a) amount\<rparr>)\<rparr>) a =
     jsub (held w a) amount"
  by (simp add: held_def position_or_new_def)

lemma held_credit:
  "held (if a = ''USD'' then rw\<lparr>dollarBalance := jadd (dollarBalance rw) amount\<rparr>
         else rw\<lparr>assets := (assets rw)(a \<mapsto>
                (position_or_new (assets rw) a)\<lparr>balance := jadd (held rw a) amount\<rparr>)\<rparr>) a =
     jadd (held rw a) amount"
  by (simp add: held_def position_or_new_def)

text \<open>
  C2, as amended. When \<open>sendMoney\<close> succeeds and the recipient found by user name is
  another user than the sender (with a non-empty identifier, as every generated
  identifier is), the asset identifier and the two user identifiers not being names of
  inherited properties: both have a wallet, the sender's balance for the asset was not
  below the amount and becomes the binary64 difference of that balance and the amount,
  the recipient's balance for the asset becomes the binary64 sum of that balance (0
  when the asset was not held) and the amount, no other wallet changes, and exactly
  two transactions are appended, the \<open>send\<close> owned by the sender and the
  \<open>receive\<close> owned by the recipient, with the same amount and asset.
\<close>

theorem sendMoney_zero_sum:
  assumes ok: "fst (sendMoney s r amount a pin) = Inr (sendTx, receiveTx)"
    and cu: "currentUser s = Some cu"
    and rc: "find_by_username (users s) r = Some rc"
    and distinct: "user_id rc \<noteq> user_id cu"
    and nonempty: "user_id rc \<noteq> []"
    and names: "\<not> inherited a" "\<not> inherited (user_id cu)" "\<not> inherited (user_id rc)"
  shows
   "(\<exists>w rw w' rw'.
       wallets s (user_id cu) = Some w \<and> wallets s (user_id rc) = Some rw \<and>
       wallets (snd (sendMoney s r amount a pin)) (user_id cu) = Some w' \<and>
       wallets (snd (sendMoney s r amount a pin)) (user_id rc) = Some rw' \<and>
       \<not> jlt (held w a) amount \<and>
       held w' a = jsub (held w a) amount \<and>
       held rw' a = jadd (held rw a) amount) \<and>
    (\<forall>u. u \<noteq> user_id cu \<and> u \<noteq> user_id rc \<longrightarrow>
       wallets (snd (sendMoney s r amount a pin)) u = wallets s u) \<and>
    transactions (snd (sendMoney s r amount a pin)) = transactions s @ [sendTx, receiveTx] \<and>
    sendTx =
      \<lparr>tx_userId = user_id cu, tx_type = ''send'', tx_asset = a, tx_amount = amount,
       tx_counterparty = Some (username rc), tx_status = ''completed'',
       tx_metadata = NoMeta\<rparr> \<and>
    receiveTx =
      \<lparr>tx_userId = user_id rc, tx_type = ''receive'', tx_asset = a, tx_amount = amount,
       tx_counterparty = Some (username cu), tx_status = ''completed'',
       tx_metadata = NoMeta\<rparr>"
proof -
  let ?s1 = "snd (pin_gate s (user_id cu) pin)"
  note run = sendMoney_after_gate [OF cu sendMoney_success_gate [OF cu ok], of r amount a]
  from ok obtain w where w: "wallets s (user_id cu) = Some w"
    unfolding run by (auto simp: rc split: option.splits)
  have enough: "\<not> (jlt (held w a) amount \<or> (a \<noteq> ''USD'' \<and> assets w a = None))"
    using ok unfolding run by (auto simp: rc w split: if_splits)
  let ?w1 = "if a = ''USD'' then w\<lparr>dollarBalance := jsub (dollarBalance w) amount\<rparr>
             else w\<lparr>assets := (assets w)(a \<mapsto>
                    (position_or_new (assets w) a)\<lparr>balance := jsub (held w a) amount\<rparr>)\<rparr>"
  from ok obtain rw where rw: "wallets s (user_id rc) = Some rw"
    unfolding run using enough distinct
    by (auto simp: rc w Let_def split: option.splits)
  let ?rw1 = "if a = ''USD'' then rw\<lparr>dollarBalance := jadd (dollarBalance rw) amount\<rparr>
              else rw\<lparr>assets := (assets rw)(a \<mapsto>
                     (position_or_new (assets rw) a)\<lparr>balance := jadd (held rw a) amount\<rparr>)\<rparr>"
  let ?s2 = "?s1\<lparr>wallets := ((wallets s)(user_id cu \<mapsto> ?w1))(user_id rc \<mapsto> ?rw1)\<rparr>"
  have run2: "sendMoney s r amount a pin = send_records ?s2 cu rc amount a"
    unfolding run using enough distinct by (auto simp: rc w rw Let_def)
  have cu2: "currentUser ?s2 = Some cu"
    by (simp add: cu)
  have wal: "wallets (snd (sendMoney s r amount a pin)) =
      ((wallets s)(user_id cu \<mapsto> ?w1))(user_id rc \<mapsto> ?rw1)"
    unfolding run2 by simp
  have txs: "transactions (snd (sendMoney s r amount a pin)) =
      transactions s @
      [\<lparr>tx_userId = user_id cu, tx_type = ''send'', tx_asset = a, tx_amount = amount,
        tx_counterparty = Some (username rc), tx_status = ''completed'',
        tx_metadata = NoMeta\<rparr>,
       \<lparr>tx_userId = user_id rc, tx_type = ''receive'', tx_asset = a, tx_amount = amount,
        tx_counterparty = Some (username cu), tx_status = ''completed'',
        tx_metadata = NoMeta\<rparr>]"
    unfolding run2 send_records_result(2) [OF cu2] using nonempty by simp
  have res: "(sendTx, receiveTx) =
      (\<lparr>tx_userId = user_id cu, tx_type = ''send'', tx_asset = a, tx_amount = amount,
        tx_counterparty = Some (username rc), tx_status = ''completed'',
        tx_metadata = NoMeta\<rparr>,
       \<lparr>tx_userId = user_id rc, tx_type = ''receive'', tx_asset = a, tx_amount = amount,
        tx_counterparty = Some (username cu), tx_status = ''completed'',
        tx_metadata = NoMeta\<rparr>)"
    using ok unfolding run2 send_records_result(1) [OF cu2] using nonempty by simp
  have bal: "\<exists>w rw w' rw'.
       wallets s (user_id cu) = Some w \<and> wallets s (user_id rc) = Some rw \<and>
       wallets (snd (sendMoney s r amount a pin)) (user_id cu) = Some w' \<and>
       wallets (snd (sendMoney s r amount a pin)) (user_id rc) = Some rw' \<and>
       \<not> jlt (held w a) amount \<and>
       held w' a = jsub (held w a) amount \<and>
       held rw' a = jadd (held rw a) amount"
  proof (intro exI conjI)
    show "wallets s (user_id cu) = Some w" by (rule w)
    show "wallets s (user_id rc) = Some rw" by (rule rw)
    show "wallets (snd (sendMoney s r amount a pin)) (user_id cu) = Some ?w1"
      unfolding wal using distinct by simp
    show "wallets (snd (sendMoney s r amount a pin)) (user_id rc) = Some ?rw1"
      unfolding wal by simp
    show "\<not> jlt (held w a) amount" using enough by simp
    show "held ?w1 a = jsub (held w a) amount" by (rule held_debit)
    show "held ?rw1 a = jadd (held rw a) amount" by (rule held_credit)
  qed
  have others: "\<forall>u. u \<noteq> user_id cu \<and> u \<noteq> user_id rc \<longrightarrow>
       wallets (snd (sendMoney s r amount a pin)) u = wallets s u"
    unfolding wal by simp
  show ?thesis
    using bal others txs res by simp
qed

lemma demo_users:
  "username demo_alice = ''alice''"
  "username demo_bob = ''bob''"
  "find_by_username (users demo_state) ''bob'' = Some demo_bob"
  "find_by_username (users demo_state) ''alice'' = Some demo_alice"
  "find_by_username (users demo_state) ''carol'' = None"
  "transactions demo_state = []"
  by (simp_all add: demo_state_def demo_alice_def demo_bob_def find_by_username_def)

lemma demo_send_arith:
  "jsub (Fin 10) (Fin 4) = Fin 6"
  "jadd (Fin 0) (Fin 4) = Fin 4"
  "jsub (Fin 1000) (Fin 5) = Fin 995"
  "jadd (Fin 995) (Fin 5) = Fin 1000"
  by code_simp+

lemma demo_ids_not_inherited: "\<not> inherited ''a1''" "\<not> inherited ''b1''"
  by (simp_all add: inherited_def inherited_names_def)

lemma demo_send_btc:
  "fst (sendMoney demo_state ''bob'' (Fin 4) ''BTC'' (Some (units ''1234''))) =
     Inr (\<lparr>tx_userId = ''a1'', tx_type = ''send'', tx_asset = ''BTC'', tx_amount = Fin 4,
           tx_counterparty = Some ''bob'', tx_status = ''completed'', tx_metadata = NoMeta\<rparr>,
          \<lparr>tx_userId = ''b1'', tx_type = ''receive'', tx_asset = ''BTC'', tx_amount = Fin 4,
           tx_counterparty = Some ''alice'', tx_status = ''completed'', tx_metadata = NoMeta\<rparr>)"
proof -
  have gate: "fst (pin_gate demo_state (user_id demo_alice) (Some (units ''1234''))) = Inr True"
    using demo_gate by (simp add: demo_current)
  show ?thesis
    unfolding sendMoney_after_gate [OF demo_current(1) gate]
    by (simp add: demo_current demo_users demo_wallets held_def position_or_new_def Let_def
        send_records_result(1) [of _ demo_alice] del: jadd.simps)
qed

theorem sendMoney_zero_sum_witness:
  "fst (sendMoney demo_state ''bob'' (Fin 4) ''BTC'' (Some (units ''1234''))) =
     Inr (\<lparr>tx_userId = ''a1'', tx_type = ''send'', tx_asset = ''BTC'', tx_amount = Fin 4,
           tx_counterparty = Some ''bob'', tx_status = ''completed'', tx_metadata = NoMeta\<rparr>,
          \<lparr>tx_userId = ''b1'', tx_type = ''receive'', tx_asset = ''BTC'', tx_amount = Fin 4,
           tx_counterparty = Some ''alice'', tx_status = ''completed'', tx_metadata = NoMeta\<rparr>) \<and>
   map_option (\<lambda>w. held w ''BTC'')
     (wallets (snd (sendMoney demo_state ''bob'' (Fin 4) ''BTC'' (Some (units ''1234'')))) ''a1'') =
     Some (Fin 6) \<and>
   map_option (\<lambda>w. held w ''BTC'')
     (wallets (snd (sendMoney demo_state ''bob'' (Fin 4) ''BTC'' (Some (units ''1234'')))) ''b1'') =
     Some (Fin 4) \<and>
   length (transactions
     (snd (sendMoney demo_state ''bob'' (Fin 4) ''BTC'' (Some (units ''1234''))))) = 2"
proof -
  have distinct: "user_id demo_bob \<noteq> user_id demo_alice" and nonempty: "user_id demo_bob \<noteq> []"
    and names: "\<not> inherited (user_id demo_alice)" "\<not> inherited (user_id demo_bob)"
    by (simp_all add: demo_current demo_ids_not_inherited)
  show ?thesis
    using sendMoney_zero_sum [OF demo_send_btc demo_current(1) demo_users(3) distinct nonempty
        demo_not_inherited(1) names]
      demo_send_btc
    by (auto simp: demo_current demo_users demo_wallets held_def position_or_new_def
        demo_send_arith simp del: jadd.simps)
qed

text \<open>
  The claim as stated fails for a transfer to oneself, which \<open>sendMoney\<close> accepts:
  the debit and the credit hit the same wallet, the balance stays 1000, and both
  transactions are owned by the sender.
\<close>

theorem sendMoney_to_self_keeps_balance:
  "fst (sendMoney demo_state ''alice'' (Fin 5) ''USD'' (Some (units ''1234''))) =
     Inr (\<lparr>tx_userId = ''a1'', tx_type = ''send'', tx_asset = ''USD'', tx_amount = Fin 5,
           tx_counterparty = Some ''alice'', tx_status = ''completed'', tx_metadata = NoMeta\<rparr>,
          \<lparr>tx_userId = ''a1'', tx_type = ''receive'', tx_asset = ''USD'', tx_amount = Fin 5,
           tx_counterparty = Some ''alice'', tx_status = ''completed'', tx_metadata = NoMeta\<rparr>) \<and>
   map_option dollarBalance (wallets demo_state ''a1'') = Some (Fin 1000) \<and>
   map_option dollarBalance
     (wallets (snd (sendMoney demo_state ''alice'' (Fin 5) ''USD'' (Some (units ''1234'')))) ''a1'') =
     Some (Fin 1000)"
proof -
  have gate: "fst (pin_gate demo_state (user_id demo_alice) (Some (units ''1234''))) = Inr True"
    using demo_gate by (simp add: demo_current)
  show ?thesis
    unfolding sendMoney_after_gate [OF demo_current(1) gate]
    by (simp add: demo_current demo_users demo_wallets held_def Let_def demo_send_arith
        send_records_result(1) [of _ demo_alice] del: jadd.simps)
qed

subsection \<open>Failed operations\<close>

lemma pin_gate_logs_only:
  "(snd (pin_gate s u p))\<lparr>adminLog := adminLog s, emailLogs := emailLogs s\<rparr> = s"
  by (simp add: pin_gate_def verifyTransferPin_def logAdminAction_def
      sendEmailNotification_def Let_def split: option.split sum.split)

lemma sendMoney_Error_state:
  assumes err: "fst (sendMoney s r amount a pin) = Inl (Error msg)"
  shows "(snd (sendMoney s r amount a pin))\<lparr>adminLog := adminLog s, emailLogs := emailLogs s\<rparr> = s"
proof -
  from err obtain cu where cu: "currentUser s = Some cu"
    by (cases "currentUser s") (simp_all add: sendMoney_def)
  let ?g = "pin_gate s (user_id cu) pin"
  have "snd (sendMoney s r amount a pin) = snd ?g"
  proof (cases "fst ?g = Inr True")
    case True
    show ?thesis
      using err send_records_not_Error unfolding sendMoney_after_gate [OF cu True]
      by (auto simp: Let_def split: option.splits if_splits)
  next
    case False
    then obtain e where e: "fst ?g = Inl e"
      by (cases s "user_id cu" pin rule: pin_gate_cases) simp_all
    show ?thesis
      by (simp add: sendMoney_def cu bind_r_Inl [OF e])
  qed
  then show ?thesis
    by (simp only: pin_gate_logs_only)
qed

lemma swapAssets_Error_state:
  assumes err: "fst (swapAssets s f g amount pin) = Inl (Error msg)"
  shows "(snd (swapAssets s f g amount pin))\<lparr>adminLog := adminLog s, emailLogs := emailLogs s\<rparr> = s"
proof -
  from err obtain cu where cu: "currentUser s = Some cu"
    by (cases "currentUser s") (simp_all add: swapAssets_def)
  let ?g = "pin_gate s (user_id cu) pin"
  have "snd (swapAssets s f g amount pin) = snd ?g"
  proof (cases "fst ?g = Inr True")
    case True
    show ?thesis
      using err createTransaction_not_Error
      unfolding swapAssets_def
      by (auto simp: cu bind_r_Inr [OF True] Let_def split: option.splits if_splits)
  next
    case False
    then obtain e where e: "fst ?g = Inl e"
      by (cases s "user_id cu" pin rule: pin_gate_cases) simp_all
    show ?thesis
      by (simp add: swapAssets_def cu bind_r_Inl [OF e])
  qed
  then show ?thesis
    by (simp only: pin_gate_logs_only)
qed

lemma logs_only_ledger:
  assumes "s'\<lparr>adminLog := adminLog s, emailLogs := emailLogs s\<rparr> = s"
  shows "wallets s' = wallets s \<and> transactions s' = transactions s \<and> pins s' = pins s \<and>
         users s' = users s"
proof -
  have "wallets (s'\<lparr>adminLog := adminLog s, emailLogs := emailLogs s\<rparr>) = wallets s'"
    "transactions (s'\<lparr>adminLog := adminLog s, emailLogs := emailLogs s\<rparr>) = transactions s'"
    "pins (s'\<lparr>adminLog := adminLog s, emailLogs := emailLogs s\<rparr>) = pins s'"
    "users (s'\<lparr>adminLog := adminLog s, emailLogs := emailLogs s\<rparr>) = users s'"
    by simp_all
  then show ?thesis
    unfolding assms by simp
qed

lemma buyAsset_Error_state:
  "fst (buyAsset s a amount p) = Inl (Error msg) \<Longrightarrow> snd (buyAsset s a amount p) = s"
  using createTransaction_not_Error
  by (auto simp: buyAsset_def Let_def split: option.splits if_splits)

lemma sellAsset_Error_state:
  "fst (sellAsset s a amount p) = Inl (Error msg) \<Longrightarrow> snd (sellAsset s a amount p) = s"
  using createTransaction_not_Error
  by (auto simp: sellAsset_def Let_def split: option.splits if_splits)

text \<open>
  C4. When \<open>sendMoney\<close>, \<open>buyAsset\<close>, \<open>sellAsset\<close> or \<open>swapAssets\<close> throws one of
  its errors (PIN required, PIN not set, invalid PIN, recipient not found, insufficient
  balance), no wallet has changed and no transaction has been appended; the PIN table
  and the user records are unchanged as well. \<open>buyAsset\<close> and \<open>sellAsset\<close> leave the
  whole state as it was. \<open>sendMoney\<close> and \<open>swapAssets\<close> leave it as it was up to
  the administrator's log and the e-mail log, where \<open>verifyTransferPin\<close> records
  every attempt.
\<close>

theorem failed_operation_changes_no_ledger:
  "(fst (sendMoney s r amount a pin) = Inl (Error msg) \<longrightarrow>
      (snd (sendMoney s r amount a pin))\<lparr>adminLog := adminLog s, emailLogs := emailLogs s\<rparr> = s \<and>
      wallets (snd (sendMoney s r amount a pin)) = wallets s \<and>
      transactions (snd (sendMoney s r amount a pin)) = transactions s \<and>
      pins (snd (sendMoney s r amount a pin)) = pins s \<and>
      users (snd (sendMoney s r amount a pin)) = users s) \<and>
   (fst (buyAsset s a amount p) = Inl (Error msg) \<longrightarrow> snd (buyAsset s a amount p) = s) \<and>
   (fst (sellAsset s a amount p) = Inl (Error msg) \<longrightarrow> snd (sellAsset s a amount p) = s) \<and>
   (fst (swapAssets s a b amount pin) = Inl (Error msg) \<longrightarrow>
      (snd (swapAssets s a b amount pin))\<lparr>adminLog := adminLog s, emailLogs := emailLogs s\<rparr> = s \<and>
      wallets (snd (swapAssets s a b amount pin)) = wallets s \<and>
      transactions (snd (swapAssets s a b amount pin)) = transactions s \<and>
      pins (snd (swapAssets s a b amount pin)) = pins s \<and>
      users (snd (swapAssets s a b amount pin)) = users s)"
  using sendMoney_Error_state [of s r amount a pin msg]
    logs_only_ledger [OF sendMoney_Error_state [of s r amount a pin msg]]
    swapAssets_Error_state [of s a b amount pin msg]
    logs_only_ledger [OF swapAssets_Error_state [of s a b amount pin msg]]
    buyAsset_Error_state [of s a amount p msg]
    sellAsset_Error_state [of s a amount p msg]
  by blast

lemma demo_fail_arith: "jmul (Fin 45000) (Fin 1) = Fin 45000"
  by code_simp

lemma demo_getWallet:
  "getWallet demo_state None = wallets demo_state ''a1''"
  "current_key demo_state = ''a1''"
  using getWallet_current [OF demo_current(1)] by (simp_all add: demo_current)

theorem failed_operation_witness:
  "fst (sendMoney demo_state ''carol'' (Fin 5) ''USD'' (Some (units ''1234''))) =
     Inl (Error ''Recipient not found'') \<and>
   wallets (snd (sendMoney demo_state ''carol'' (Fin 5) ''USD'' (Some (units ''1234'')))) =
     wallets demo_state \<and>
   transactions (snd (sendMoney demo_state ''carol'' (Fin 5) ''USD'' (Some (units ''1234'')))) = [] \<and>
   fst (sendMoney demo_state ''bob'' (Fin 5000) ''USD'' (Some (units ''1234''))) =
     Inl (Error ''Insufficient balance'') \<and>
   wallets (snd (sendMoney demo_state ''bob'' (Fin 5000) ''USD'' (Some (units ''1234'')))) =
     wallets demo_state \<and>
   buyAsset demo_state ''BTC'' (Fin 1) None =
     (Inl (Error ''Insufficient USD balance''), demo_state) \<and>
   sellAsset demo_state ''BTC'' (Fin 11) None =
     (Inl (Error ''Insufficient asset balance''), demo_state) \<and>
   fst (swapAssets demo_state ''ETH'' ''BTC'' (Fin 1) None) =
     Inl (Error ''Transfer PIN required for this transaction'') \<and>
   wallets (snd (swapAssets demo_state ''ETH'' ''BTC'' (Fin 1) None)) = wallets demo_state"
proof -
  have gate: "fst (pin_gate demo_state (user_id demo_alice) (Some (units ''1234''))) = Inr True"
    using demo_gate by (simp add: demo_current)
  have nogate: "fst (pin_gate demo_state ''a1'' None) =
      Inl (Error ''Transfer PIN required for this transaction'')"
    using demo_has_pin by (simp add: pin_gate_def)
  have e1: "fst (sendMoney demo_state ''carol'' (Fin 5) ''USD'' (Some (units ''1234''))) =
     Inl (Error ''Recipient not found'')"
    unfolding sendMoney_after_gate [OF demo_current(1) gate]
    by (simp add: demo_current demo_users)
  have e2: "fst (sendMoney demo_state ''bob'' (Fin 5000) ''USD'' (Some (units ''1234''))) =
     Inl (Error ''Insufficient balance'')"
    unfolding sendMoney_after_gate [OF demo_current(1) gate]
    by (simp add: demo_current demo_users demo_wallets held_def)
  have e3: "fst (buyAsset demo_state ''BTC'' (Fin 1) None) = Inl (Error ''Insufficient USD balance'')"
    by (simp add: buyAsset_def demo_getWallet demo_wallets unit_price_def demo_prices Let_def
        demo_fail_arith del: jmul.simps)
  have e4: "fst (sellAsset demo_state ''BTC'' (Fin 11) None) = Inl (Error ''Insufficient asset balance'')"
    by (simp add: sellAsset_def demo_getWallet demo_wallets)
  have e5: "fst (swapAssets demo_state ''ETH'' ''BTC'' (Fin 1) None) =
     Inl (Error ''Transfer PIN required for this transaction'')"
    by (simp add: swapAssets_def demo_current bind_r_Inl [OF nogate])
  show ?thesis
    using
      failed_operation_changes_no_ledger [of demo_state "''carol''" "Fin 5" "''USD''"
        "Some (units ''1234'')" "''Recipient not found''" None "''BTC''"]
      failed_operation_changes_no_ledger [of demo_state "''bob''" "Fin 5000" "''USD''"
        "Some (units ''1234'')" "''Insufficient balance''" None "''BTC''"]
      failed_operation_changes_no_ledger [of demo_state "''bob''" "Fin 1" "''BTC''"
        None "''Insufficient USD balance''" None "''BTC''"]
      failed_operation_changes_no_ledger [of demo_state "''bob''" "Fin 11" "''BTC''"
        None "''Insufficient asset balance''" None "''BTC''"]
      failed_operation_changes_no_ledger [of demo_state "''bob''" "Fin 1" "''ETH''"
        None "''Transfer PIN required for this transaction''" None "''BTC''"]
      e1 e2 e3 e4 e5
    by (simp add: demo_wallets demo_users prod_eq_iff)
qed

text \<open>
  The remaining failure is the \<open>TypeError\<close> of a missing object. In \<open>sendMoney\<close> it
  can follow the sender's debit, when the recipient has no wallet; where every user has
  a wallet, as after \<open>signup\<close>, it leaves the wallets and transactions unchanged too.
\<close>

lemma find_in_set: "find P xs = Some x \<Longrightarrow> x \<in> set xs"
  by (induction xs) (auto split: if_splits)

lemma sendMoney_TypeError_frame:
  assumes wf: "\<forall>u \<in> set (users s). wallets s (user_id u) \<noteq> None"
    and err: "fst (sendMoney s r amount a pin) = Inl TypeError"
  shows "wallets (snd (sendMoney s r amount a pin)) = wallets s \<and>
         transactions (snd (sendMoney s r amount a pin)) = transactions s"
proof (cases "currentUser s")
  case None
  then show ?thesis by (simp add: sendMoney_def)
next
  case (Some cu)
  have gate: "fst (pin_gate s (user_id cu) pin) = Inr True"
  proof (rule ccontr)
    assume "fst (pin_gate s (user_id cu) pin) \<noteq> Inr True"
    then obtain e where e: "fst (pin_gate s (user_id cu) pin) = Inl e" "e \<noteq> TypeError"
      using pin_gate_result [of s "user_id cu" pin] by auto
    have "sendMoney s r amount a pin = (Inl e, snd (pin_gate s (user_id cu) pin))"
      by (simp add: sendMoney_def Some bind_r_Inl [OF e(1)])
    with err e(2) show False by simp
  qed
  have rcw: "wallets s (user_id rc) \<noteq> None" if "find_by_username (users s) r = Some rc" for rc
    using wf find_in_set [of _ "users s" rc] that by (auto simp: find_by_username_def)
  have cu': "currentUser (z\<lparr>wallets := m\<rparr>) = Some cu" if "currentUser z = Some cu" for z m
    using that by simp
  have nt: "fst (send_records z cu rc amount a) \<noteq> Inl TypeError" if "currentUser z = Some cu" for z rc
    using send_records_result(1) [OF that, of cu rc amount a] by simp
  have cs: "currentUser (snd (pin_gate s (user_id cu) pin)) = Some cu"
    by (simp add: Some)
  show ?thesis
    using err rcw nt [OF cu' [OF cs]] unfolding sendMoney_after_gate [OF Some gate]
    by (auto simp: Let_def split: option.splits if_splits)
qed

lemma sendMoney_TypeError_after_debit:
  "fst (sendMoney (demo_state\<lparr>wallets := (wallets demo_state)(''b1'' := None)\<rparr>)
          ''bob'' (Fin 5) ''USD'' (Some (units ''1234''))) = Inl TypeError \<and>
   map_option dollarBalance
     (wallets (snd (sendMoney (demo_state\<lparr>wallets := (wallets demo_state)(''b1'' := None)\<rparr>)
          ''bob'' (Fin 5) ''USD'' (Some (units ''1234'')))) ''a1'') = Some (Fin 995)"
proof -
  let ?s = "demo_state\<lparr>wallets := (wallets demo_state)(''b1'' := None)\<rparr>"
  have cu: "currentUser ?s = Some demo_alice"
    by (simp add: demo_current)
  have gate: "fst (pin_gate ?s (user_id demo_alice) (Some (units ''1234''))) = Inr True"
  proof -
    have "units ''1234'' \<noteq> []"
      by (simp add: units_def)
    then show ?thesis
      using demo_hash_nonempty
      by (simp add: demo_current pin_gate_def hasTransferPin_def verify_result demo_pin_a
          truthy_str_def)
  qed
  show ?thesis
    unfolding sendMoney_after_gate [OF cu gate]
    by (simp add: demo_current demo_users demo_wallets held_def Let_def demo_send_arith
        del: jadd.simps)
qed

subsection \<open>Balances that stay non-negative\<close>

lemma nonneg_cases: "nonneg x \<longleftrightarrow> x = PInf \<or> (\<exists>r. x = Fin r \<and> 0 \<le> r)"
  by (cases x) (auto simp: nonneg_def)

lemma fin_nonneg_cases: "fin_nonneg x \<longleftrightarrow> (\<exists>r. x = Fin r \<and> 0 \<le> r)"
  by (cases x) (auto simp: fin_nonneg_def)

lemma fin_nonneg_nonneg: "fin_nonneg x \<Longrightarrow> nonneg x"
  by (auto simp: nonneg_cases fin_nonneg_cases)

lemma nonneg_zero [simp]: "nonneg (Fin 0)"
  by (simp add: nonneg_def)

lemma nonneg_round64: "0 \<le> r \<Longrightarrow> nonneg (round64 r)"
  using round64_nonneg_cases [of r] by (auto simp: nonneg_cases)

lemma nonneg_jadd: "nonneg a \<Longrightarrow> nonneg b \<Longrightarrow> nonneg (jadd a b)"
proof -
  assume a: "nonneg a" and b: "nonneg b"
  show ?thesis
  proof (cases "a = PInf \<or> b = PInf")
    case True
    then show ?thesis
      using a b by (auto simp: nonneg_cases)
  next
    case False
    with a b obtain x y where xy: "a = Fin x" "0 \<le> x" "b = Fin y" "0 \<le> y"
      by (auto simp: nonneg_cases)
    then have "nonneg (round64 (x + y))"
      by (intro nonneg_round64) simp
    then show ?thesis
      by (simp add: xy)
  qed
qed

lemma nonneg_credit: "nonneg a \<Longrightarrow> fin_nonneg b \<Longrightarrow> nonneg (jadd a b)"
  by (rule nonneg_jadd) (simp_all add: fin_nonneg_nonneg)

lemma nonneg_jsub: "nonneg a \<Longrightarrow> fin_nonneg b \<Longrightarrow> \<not> jlt a b \<Longrightarrow> nonneg (jsub a b)"
proof -
  assume a: "nonneg a" and b: "fin_nonneg b" and le: "\<not> jlt a b"
  from b obtain y where y: "b = Fin y" "0 \<le> y"
    by (auto simp: fin_nonneg_cases)
  from a consider "a = PInf" | x where "a = Fin x" "0 \<le> x"
    by (auto simp: nonneg_cases)
  then show ?thesis
  proof cases
    case 1
    then show ?thesis
      by (simp add: jsub_def y nonneg_def)
  next
    case (2 x)
    with le y have "0 \<le> x + - y"
      by simp
    then have "nonneg (round64 (x + - y))"
      by (rule nonneg_round64)
    then show ?thesis
      by (simp add: jsub_def y 2)
  qed
qed

lemma wallets_nonneg_upd:
  "wallets_nonneg m \<Longrightarrow> wallet_nonneg w \<Longrightarrow> wallets_nonneg (m(k \<mapsto> w))"
  by (simp add: wallets_nonneg_def)

lemma wallets_nonneg_get: "wallets_nonneg m \<Longrightarrow> m k = Some w \<Longrightarrow> wallet_nonneg w"
  by (auto simp: wallets_nonneg_def)

lemma wallet_nonneg_dollar:
  "wallet_nonneg w \<Longrightarrow> nonneg x \<Longrightarrow> wallet_nonneg (w\<lparr>dollarBalance := x\<rparr>)"
  by (simp add: wallet_nonneg_def)

lemma wallet_nonneg_position:
  "wallet_nonneg w \<Longrightarrow> nonneg (balance q) \<Longrightarrow> wallet_nonneg (w\<lparr>assets := (assets w)(a \<mapsto> q)\<rparr>)"
  by (simp add: wallet_nonneg_def)

lemma wallet_nonneg_remove:
  "wallet_nonneg w \<Longrightarrow> wallet_nonneg (w\<lparr>assets := (assets w)(a := None)\<rparr>)"
  by (simp add: wallet_nonneg_def)

lemma wallet_nonneg_held: "wallet_nonneg w \<Longrightarrow> nonneg (held w a)"
  by (auto simp: wallet_nonneg_def held_def position_or_new_def split: option.splits)

lemma wallet_nonneg_balance:
  "wallet_nonneg w \<Longrightarrow> nonneg (dollarBalance w)"
  "wallet_nonneg w \<Longrightarrow> assets w a = Some q \<Longrightarrow> nonneg (balance q)"
  "wallet_nonneg w \<Longrightarrow> nonneg (balance (position_or_new (assets w) a))"
  by (auto simp: wallet_nonneg_def position_or_new_def split: option.splits)

lemma addMoney_nonneg:
  assumes "state_nonneg s" "fin_nonneg x"
  shows "state_nonneg (snd (addMoney s x))"
proof (cases "getWallet s None")
  case None
  then show ?thesis using assms by (simp add: addMoney_def)
next
  case (Some w)
  then have "wallet_nonneg w"
    using assms(1) by (auto simp: state_nonneg_def getWallet_def dest: wallets_nonneg_get)
  then have "wallet_nonneg (w\<lparr>dollarBalance := jadd (dollarBalance w) x\<rparr>)"
    using assms(2)
    by (intro wallet_nonneg_dollar nonneg_credit wallet_nonneg_balance)
  then show ?thesis
    using assms(1) Some by (simp add: addMoney_def state_nonneg_def wallets_nonneg_upd)
qed

lemma receiveMoney_nonneg:
  assumes "state_nonneg s" "fin_nonneg x"
  shows "state_nonneg (snd (receiveMoney s x a))"
proof (cases "getWallet s None")
  case None
  then show ?thesis using assms by (simp add: receiveMoney_def)
next
  case (Some w)
  then have w: "wallet_nonneg w"
    using assms(1) by (auto simp: state_nonneg_def getWallet_def dest: wallets_nonneg_get)
  have "wallet_nonneg (w\<lparr>dollarBalance := jadd (dollarBalance w) x\<rparr>)"
    using assms(2) w
    by (intro wallet_nonneg_dollar nonneg_credit wallet_nonneg_balance)
  moreover have "nonneg (jadd (balance (position_or_new (assets w) a)) x)"
    using assms(2) w by (intro nonneg_credit wallet_nonneg_balance)
  then have "wallet_nonneg (w\<lparr>assets := (assets w)(a \<mapsto>
      (position_or_new (assets w) a)
        \<lparr>balance := jadd (balance (position_or_new (assets w) a)) x\<rparr>)\<rparr>)"
    using w by (intro wallet_nonneg_position) simp_all
  ultimately show ?thesis
    using assms(1) Some
    by (simp add: receiveMoney_def state_nonneg_def wallets_nonneg_upd Let_def)
qed

lemma updateUserBalance_nonneg:
  assumes "state_nonneg s" "nonneg x"
  shows "state_nonneg (snd (updateUserBalance s u a x))"
proof (cases "getWallet s (Some u)")
  case None
  then show ?thesis using assms by (simp add: updateUserBalance_def)
next
  case (Some w)
  then have w: "wallet_nonneg w"
    using assms(1) by (auto simp: state_nonneg_def getWallet_def dest: wallets_nonneg_get)
  have "wallet_nonneg (w\<lparr>dollarBalance := x\<rparr>)"
    using assms(2) w by (rule wallet_nonneg_dollar [rotated])
  moreover have "wallet_nonneg (w\<lparr>assets := (assets w)(a \<mapsto>
      (position_or_new (assets w) a)\<lparr>balance := x\<rparr>)\<rparr>)"
    using assms(2) w by (intro wallet_nonneg_position) simp_all
  ultimately show ?thesis
    using assms(1) Some
    by (simp add: updateUserBalance_def state_nonneg_def wallets_nonneg_upd)
qed

lemma buyAsset_nonneg:
  assumes "state_nonneg s" "fin_nonneg x" "fin_nonneg (jmul (unit_price s a p) x)"
  shows "state_nonneg (snd (buyAsset s a x p))"
proof (cases "getWallet s None")
  case None
  then show ?thesis using assms by (simp add: buyAsset_def)
next
  case (Some w)
  then have w: "wallet_nonneg w"
    using assms(1) by (auto simp: state_nonneg_def getWallet_def dest: wallets_nonneg_get)
  let ?cost = "jmul (unit_price s a p) x"
  have cost: "fin_nonneg ?cost"
    by (rule assms(3))
  show ?thesis
  proof (cases "jlt (dollarBalance w) ?cost")
    case True
    then show ?thesis using assms(1) Some by (simp add: buyAsset_def)
  next
    case False
    have "wallet_nonneg (w\<lparr>dollarBalance := jsub (dollarBalance w) ?cost\<rparr>)"
      using w cost False by (intro wallet_nonneg_dollar nonneg_jsub wallet_nonneg_balance)
    then have "wallet_nonneg (w\<lparr>dollarBalance := jsub (dollarBalance w) ?cost\<rparr>
        \<lparr>assets := (assets (w\<lparr>dollarBalance := jsub (dollarBalance w) ?cost\<rparr>))(a \<mapsto> q)\<rparr>)"
      if "nonneg (balance q)" for q
      using that by (rule wallet_nonneg_position)
    moreover have "nonneg (jadd (balance (position_or_new (assets w) a)) x)"
      using assms(2) w by (intro nonneg_credit wallet_nonneg_balance)
    ultimately show ?thesis
      using assms(1) Some False
      by (simp add: buyAsset_def state_nonneg_def wallets_nonneg_upd Let_def)
  qed
qed

lemma sellAsset_nonneg:
  assumes "state_nonneg s" "fin_nonneg x" "nonneg (jmul (unit_price s a p) x)"
  shows "state_nonneg (snd (sellAsset s a x p))"
proof (cases "getWallet s None")
  case None
  then show ?thesis using assms by (simp add: sellAsset_def)
next
  case (Some w)
  then have w: "wallet_nonneg w"
    using assms(1) by (auto simp: state_nonneg_def getWallet_def dest: wallets_nonneg_get)
  let ?w = "w\<lparr>dollarBalance := jadd (dollarBalance w) (jmul (unit_price s a p) x)\<rparr>"
  have w1: "wallet_nonneg ?w"
    using w assms(3)
    by (intro wallet_nonneg_dollar nonneg_jadd wallet_nonneg_balance)
  show ?thesis
  proof (cases "assets w a")
    case None
    then show ?thesis using assms(1) Some by (simp add: sellAsset_def)
  next
    case (Some q)
    show ?thesis
    proof (cases "jlt (balance q) x")
      case True
      then show ?thesis using assms(1) Some \<open>getWallet s None = Some w\<close> by (simp add: sellAsset_def)
    next
      case False
      have q: "nonneg (jsub (balance q) x)"
        using w Some assms(2) False by (intro nonneg_jsub wallet_nonneg_balance)
      have r1: "wallet_nonneg (?w\<lparr>assets := (assets ?w)(a := None)\<rparr>)"
        using w1 by (rule wallet_nonneg_remove)
      have r2: "wallet_nonneg (?w\<lparr>assets := (assets ?w)(a \<mapsto> q\<lparr>balance := jsub (balance q) x\<rparr>)\<rparr>)"
        using w1 q by (intro wallet_nonneg_position) simp_all
      show ?thesis
        using assms(1) Some \<open>getWallet s None = Some w\<close> False r1 r2
        by (simp add: sellAsset_def state_nonneg_def wallets_nonneg_upd Let_def)
    qed
  qed
qed

lemma wallet_nonneg_debit:
  assumes "wallet_nonneg w" "fin_nonneg x" "\<not> jlt (held w a) x"
  shows "wallet_nonneg
    (if a = ''USD'' then w\<lparr>dollarBalance := jsub (dollarBalance w) x\<rparr>
     else w\<lparr>assets := (assets w)(a \<mapsto>
            (position_or_new (assets w) a)\<lparr>balance := jsub (held w a) x\<rparr>)\<rparr>)"
proof -
  have "nonneg (jsub (held w a) x)"
    using assms by (intro nonneg_jsub wallet_nonneg_held)
  then show ?thesis
    using assms(1) by (auto simp: held_def intro: wallet_nonneg_dollar wallet_nonneg_position)
qed

lemma wallet_nonneg_credit:
  assumes "wallet_nonneg w" "fin_nonneg x"
  shows "wallet_nonneg
    (if a = ''USD'' then w\<lparr>dollarBalance := jadd (dollarBalance w) x\<rparr>
     else w\<lparr>assets := (assets w)(a \<mapsto>
            (position_or_new (assets w) a)\<lparr>balance := jadd (held w a) x\<rparr>)\<rparr>)"
proof -
  have "nonneg (jadd (held w a) x)"
    using assms by (intro nonneg_credit wallet_nonneg_held)
  then show ?thesis
    using assms(1) by (auto simp: held_def intro: wallet_nonneg_dollar wallet_nonneg_position)
qed

lemma sendMoney_nonneg:
  assumes inv: "state_nonneg s" and x: "fin_nonneg x"
  shows "state_nonneg (snd (sendMoney s r x a pin))"
proof (cases "currentUser s")
  case None
  then show ?thesis using inv by (simp add: sendMoney_def)
next
  case (Some cu)
  let ?s1 = "snd (pin_gate s (user_id cu) pin)"
  show ?thesis
  proof (cases "fst (pin_gate s (user_id cu) pin) = Inr True")
    case False
    then obtain e where e: "fst (pin_gate s (user_id cu) pin) = Inl e"
      by (cases s "user_id cu" pin rule: pin_gate_cases) simp_all
    have "sendMoney s r x a pin = (Inl e, ?s1)"
      by (simp add: sendMoney_def Some bind_r_Inl [OF e])
    then show ?thesis using inv by (simp add: state_nonneg_def)
  next
    case True
    note run = sendMoney_after_gate [OF Some True, of r x a]
    have same: "state_nonneg ?s1"
      using inv by (simp add: state_nonneg_def)
    show ?thesis
    proof (cases "find_by_username (users s) r")
      case None
      then show ?thesis using same by (simp add: run)
    next
      case rc: (Some rc)
      show ?thesis
      proof (cases "wallets s (user_id cu)")
        case None
        then show ?thesis using same by (simp add: run rc)
      next
        case w: (Some w)
        have wn: "wallet_nonneg w"
          using inv w by (auto simp: state_nonneg_def dest: wallets_nonneg_get)
        show ?thesis
        proof (cases "jlt (held w a) x \<or> (a \<noteq> ''USD'' \<and> assets w a = None)")
          case True
          then show ?thesis using same by (simp add: run rc w)
        next
          case False
          let ?w1 = "if a = ''USD'' then w\<lparr>dollarBalance := jsub (dollarBalance w) x\<rparr>
             else w\<lparr>assets := (assets w)(a \<mapsto>
                    (position_or_new (assets w) a)\<lparr>balance := jsub (held w a) x\<rparr>)\<rparr>"
          let ?m1 = "(wallets s)(user_id cu \<mapsto> ?w1)"
          have w1: "wallet_nonneg ?w1"
            using wn x False by (intro wallet_nonneg_debit) simp_all
          have m1: "wallets_nonneg ?m1"
            using inv w1 unfolding state_nonneg_def by (rule wallets_nonneg_upd)
          show ?thesis
          proof (cases "?m1 (user_id rc)")
            case None
            then show ?thesis
              using m1 False unfolding run by (auto simp: rc w Let_def state_nonneg_def)
          next
            case rw: (Some rw)
            let ?rw1 = "if a = ''USD'' then rw\<lparr>dollarBalance := jadd (dollarBalance rw) x\<rparr>
              else rw\<lparr>assets := (assets rw)(a \<mapsto>
                     (position_or_new (assets rw) a)\<lparr>balance := jadd (held rw a) x\<rparr>)\<rparr>"
            have "wallet_nonneg rw"
              using m1 rw by (rule wallets_nonneg_get)
            then have "wallet_nonneg ?rw1"
              using x by (rule wallet_nonneg_credit)
            then have "wallets_nonneg (?m1(user_id rc \<mapsto> ?rw1))"
              by (rule wallets_nonneg_upd [OF m1])
            then show ?thesis
              using False rw unfolding run by (auto simp: rc w Let_def state_nonneg_def)
          qed
        qed
      qed
    qed
  qed
qed

lemma swap_positions_nonneg:
  assumes w: "wallet_nonneg w" and fa: "assets w f = Some fa" and x: "fin_nonneg x"
    and enough: "\<not> jlt (balance fa) x" and t: "nonneg t"
  shows "wallet_nonneg (w\<lparr>assets := swap_positions (assets w) f g fa x t\<rparr>)"
proof -
  let ?fa = "fa\<lparr>balance := jsub (balance fa) x\<rparr>"
  let ?w1 = "w\<lparr>assets := (assets w)(f \<mapsto> ?fa)\<rparr>"
  have d: "nonneg (jsub (balance fa) x)"
    using w fa x enough by (intro nonneg_jsub wallet_nonneg_balance)
  have w1: "wallet_nonneg ?w1"
    using w d by (intro wallet_nonneg_position) simp_all
  let ?ta = "(position_or_new (assets ?w1) g)
               \<lparr>balance := jadd (balance (position_or_new (assets ?w1) g)) t\<rparr>"
  let ?w2 = "?w1\<lparr>assets := (assets ?w1)(g \<mapsto> ?ta)\<rparr>"
  have "nonneg (jadd (balance (position_or_new (assets ?w1) g)) t)"
    using w1 t by (intro nonneg_jadd wallet_nonneg_balance)
  then have w2: "wallet_nonneg ?w2"
    using wallet_nonneg_position [OF w1, of ?ta g] by simp
  have w3: "wallet_nonneg (?w2\<lparr>assets := (assets ?w2)(f := None)\<rparr>)"
    using w2 by (rule wallet_nonneg_remove)
  show ?thesis
    using w2 w3 by (simp add: swap_positions_def Let_def)
qed

lemma swapAssets_nonneg:
  assumes inv: "state_nonneg s" and x: "fin_nonneg x"
    and t: "nonneg (jdiv (jmul x (market_price s f)) (market_price s g))"
  shows "state_nonneg (snd (swapAssets s f g x pin))"
proof (cases "currentUser s")
  case None
  then show ?thesis using inv by (simp add: swapAssets_def)
next
  case (Some cu)
  let ?s1 = "snd (pin_gate s (user_id cu) pin)"
  have same: "state_nonneg ?s1"
    using inv by (simp add: state_nonneg_def)
  show ?thesis
  proof (cases "fst (pin_gate s (user_id cu) pin) = Inr True")
    case False
    then obtain e where e: "fst (pin_gate s (user_id cu) pin) = Inl e"
      by (cases s "user_id cu" pin rule: pin_gate_cases) simp_all
    have "swapAssets s f g x pin = (Inl e, ?s1)"
      by (simp add: swapAssets_def Some bind_r_Inl [OF e])
    then show ?thesis using same by simp
  next
    case True
    show ?thesis
    proof (cases "wallets s (user_id cu)")
      case None
      then show ?thesis
        using same
        by (simp add: swapAssets_def Some bind_r_Inr [OF True] getWallet_current [OF Some])
    next
      case w: (Some w)
      have wn: "wallet_nonneg w"
        using inv w by (auto simp: state_nonneg_def dest: wallets_nonneg_get)
      show ?thesis
      proof (cases "assets w f")
        case None
        then show ?thesis
          using same
          by (simp add: swapAssets_def Some bind_r_Inr [OF True] getWallet_current [OF Some] w)
      next
        case fa: (Some fa)
        show ?thesis
        proof (cases "jlt (balance fa) x")
          case True': True
          then show ?thesis
            using same
            by (simp add: swapAssets_def Some bind_r_Inr [OF True] getWallet_current [OF Some]
                w fa)
        next
          case False
          have "wallet_nonneg (w\<lparr>assets := swap_positions (assets w) f g fa x
              (jdiv (jmul x (market_price s f)) (market_price s g))\<rparr>)"
            using wn fa x False t by (rule swap_positions_nonneg)
          then show ?thesis
            using inv
            by (simp add: swapAssets_after_gate [OF Some w fa True False] state_nonneg_def
                wallets_nonneg_upd)
        qed
      qed
    qed
  qed
qed

lemma login_nonneg: "state_nonneg s \<Longrightarrow> state_nonneg (snd (login s mail password))"
  by (simp add: login_def state_nonneg_def Let_def split: option.split sum.split)

lemma signup_nonneg:
  "state_nonneg s \<Longrightarrow> state_nonneg (snd (signup s newId mail password uname))"
  by (simp add: signup_def createPinEntry_def state_nonneg_def Let_def wallets_nonneg_upd
      wallet_nonneg_def split: sum.split)

lemma apply_op_nonneg: "state_nonneg s \<Longrightarrow> op_ok s c \<Longrightarrow> state_nonneg (apply_op s c)"
  by (cases c)
    (simp_all add: addMoney_nonneg receiveMoney_nonneg sendMoney_nonneg buyAsset_nonneg
      sellAsset_nonneg swapAssets_nonneg updateUserBalance_nonneg login_nonneg signup_nonneg)

text \<open>The calls change no user identifier, and \<open>signup\<close> adds the one it is given.\<close>

lemma simple_ops_ids [simp]:
  "users (snd (addMoney s x)) = users s"
  "currentUser (snd (addMoney s x)) = currentUser s"
  "users (snd (receiveMoney s x a)) = users s"
  "currentUser (snd (receiveMoney s x a)) = currentUser s"
  "users (snd (buyAsset s a x p)) = users s"
  "currentUser (snd (buyAsset s a x p)) = currentUser s"
  "users (snd (sellAsset s a x p)) = users s"
  "currentUser (snd (sellAsset s a x p)) = currentUser s"
  "users (snd (updateUserBalance s u a x)) = users s"
  "currentUser (snd (updateUserBalance s u a x)) = currentUser s"
  by (simp_all add: addMoney_def receiveMoney_def buyAsset_def sellAsset_def
      updateUserBalance_def Let_def split: option.split)

lemma sendMoney_ids [simp]:
  "users (snd (sendMoney s r x a pin)) = users s"
  "currentUser (snd (sendMoney s r x a pin)) = currentUser s"
proof -
  have "users (snd (sendMoney s r x a pin)) = users s \<and>
        currentUser (snd (sendMoney s r x a pin)) = currentUser s"
  proof (cases "currentUser s")
    case None
    then show ?thesis
      by (simp add: sendMoney_def)
  next
    case (Some cu)
    show ?thesis
    proof (cases s "user_id cu" pin rule: pin_gate_cases)
      case 1
      show ?thesis
        unfolding sendMoney_after_gate [OF Some 1]
        by (simp add: Let_def split: option.split)
    next
      case (2 e)
      have "sendMoney s r x a pin = (Inl e, snd (pin_gate s (user_id cu) pin))"
        by (simp add: sendMoney_def Some bind_r_Inl [OF 2])
      then show ?thesis
        by simp
    qed
  qed
  then show "users (snd (sendMoney s r x a pin)) = users s"
    "currentUser (snd (sendMoney s r x a pin)) = currentUser s"
    by simp_all
qed

lemma swapAssets_ids [simp]:
  "users (snd (swapAssets s f g x pin)) = users s"
  "currentUser (snd (swapAssets s f g x pin)) = currentUser s"
proof -
  have "users (snd (swapAssets s f g x pin)) = users s \<and>
        currentUser (snd (swapAssets s f g x pin)) = currentUser s"
  proof (cases "currentUser s")
    case None
    then show ?thesis
      by (simp add: swapAssets_def)
  next
    case (Some cu)
    show ?thesis
    proof (cases s "user_id cu" pin rule: pin_gate_cases)
      case 1
      show ?thesis
        by (simp add: swapAssets_def Some bind_r_Inr [OF 1] Let_def split: option.split)
    next
      case (2 e)
      have "swapAssets s f g x pin = (Inl e, snd (pin_gate s (user_id cu) pin))"
        by (simp add: swapAssets_def Some bind_r_Inl [OF 2])
      then show ?thesis
        by simp
    qed
  qed
  then show "users (snd (swapAssets s f g x pin)) = users s"
    "currentUser (snd (swapAssets s f g x pin)) = currentUser s"
    by simp_all
qed

lemma update_first_ids:
  "(\<And>v. user_id (f v) = user_id v) \<Longrightarrow>
   (\<forall>u \<in> set (update_first q f us). P (user_id u)) = (\<forall>u \<in> set us. P (user_id u))"
  by (induction us) simp_all

lemma ids_ok_iff:
  "ids_ok s \<longleftrightarrow>
     (\<forall>u \<in> set (users s). \<not> inherited (user_id u)) \<and>
     (\<forall>u. currentUser s = Some u \<longrightarrow> \<not> inherited (user_id u))"
  by (auto simp: ids_ok_def list_all_iff split: option.splits)

lemma login_ids_ok:
  assumes "ids_ok s"
  shows "ids_ok (snd (login s mail password))"
proof (cases "find (\<lambda>u. email u = mail) (users s)")
  case None
  then show ?thesis
    using assms by (simp add: login_def)
next
  case (Some u)
  then have "u \<in> set (users s)"
    by (rule find_in_set)
  then have u: "\<not> inherited (user_id u)"
    using assms by (auto simp: ids_ok_iff)
  have m: "(\<forall>v \<in> set (update_first (\<lambda>v. email v = mail) (hasLoggedInBefore_update (\<lambda>_. True))
                      (users s)). \<not> inherited (user_id v)) =
      (\<forall>v \<in> set (users s). \<not> inherited (user_id v))"
    by (rule update_first_ids) simp
  show ?thesis
    using assms u unfolding ids_ok_iff
    by (simp add: login_def Some Let_def m split: sum.split)
qed

lemma signup_ids_ok:
  assumes "ids_ok s" "\<not> inherited newId"
  shows "ids_ok (snd (signup s newId mail password uname))"
  using assms
  by (simp add: signup_def createPinEntry_def Let_def ids_ok_def split: sum.split)

lemma apply_op_ids_ok: "ids_ok s \<Longrightarrow> op_ok s c \<Longrightarrow> ids_ok (apply_op s c)"
  by (cases c) (simp_all add: login_ids_ok signup_ids_ok, simp_all add: ids_ok_def)

text \<open>
  C1, as amended. Non-negative balances are preserved, not enforced. From a state in
  which every dollar balance and every position balance is \<open>>= 0\<close>, any sequence of
  \<open>addMoney\<close>, \<open>receiveMoney\<close>, \<open>sendMoney\<close>, \<open>buyAsset\<close>, \<open>sellAsset\<close>,
  \<open>swapAssets\<close> and \<open>updateUserBalance\<close> calls, with logins and signups in between
  and whether the calls return or throw, leads to such a state again, provided every
  amount is a finite number \<open>>= 0\<close>, the cost of every purchase (unit price times
  amount, in binary64 arithmetic) is finite and \<open>>= 0\<close>, the proceeds of every sale
  and the converted amount of every swap are \<open>>= 0\<close> (not \<open>NaN\<close>), every balance
  an administrator sets is \<open>>= 0\<close>, and no asset or user identifier is the name of
  an inherited property. A balance may be \<open>Infinity\<close>, which is \<open>>= 0\<close>.
\<close>

theorem nonneg_preserved:
  "state_nonneg s \<Longrightarrow> ids_ok s \<Longrightarrow> run_ok s cs \<Longrightarrow> state_nonneg (run s cs)"
proof (induction cs arbitrary: s)
  case Nil
  then show ?case by simp
next
  case (Cons c cs)
  from Cons.prems have "state_nonneg (apply_op s c)" and "run_ok (apply_op s c) cs"
    by (simp_all add: apply_op_nonneg)
  moreover have "ids_ok (apply_op s c)"
    using Cons.prems by (simp add: apply_op_ids_ok)
  ultimately show ?case
    using Cons.IH by simp
qed

subsection \<open>Example runs\<close>

lemma example_run_states:
  "snd (signup empty_state ''u1'' ''alice@example.org'' (units ''secret'') ''alice'') =
     empty_state\<lparr>users := [\<lparr>user_id = ''u1'', email = ''alice@example.org'', username = ''alice'',
                  passwordHash = hash_of (units ''secret''), transferPinHash = None,
                  hasLoggedInBefore = False\<rparr>],
       wallets := [''u1'' \<mapsto> \<lparr>userId = ''u1'', dollarBalance = Fin 0, assets = Map.empty,
                     totalValue = Fin 0\<rparr>],
       pins := [''u1'' \<mapsto> \<lparr>pin_userId = ''u1'', pinHash = None, mustSetPin = True,
                     resetBy = None\<rparr>]\<rparr>"
  by (simp add: signup_def empty_state_def createPinEntry_def Let_def)

lemma signed_up_facts:
  "currentUser signed_up =
     Some \<lparr>user_id = ''u1'', email = ''alice@example.org'', username = ''alice'',
           passwordHash = hash_of (units ''secret''), transferPinHash = None,
           hasLoggedInBefore = True\<rparr>"
  "wallets signed_up =
     [''u1'' \<mapsto> \<lparr>userId = ''u1'', dollarBalance = Fin 0, assets = Map.empty,
                 totalValue = Fin 0\<rparr>]"
  "transactions signed_up = []"
  unfolding signed_up_def run.simps apply_op.simps example_run_states
  by (simp_all add: login_def Let_def empty_state_def)

lemma empty_state_ok: "state_nonneg empty_state" "ids_ok empty_state"
  by (simp_all add: state_nonneg_def wallets_nonneg_def ids_ok_def empty_state_def)

lemma example_run_arith:
  "jadd (Fin 0) (Fin (- 1)) = Fin (- 1)"
  "jmul (Fin 45000) (Fin (5764607523034235 / 576460752303423488)) = Fin 450"
  "jmul (Fin 46000) (Fin (5764607523034235 / 576460752303423488)) = Fin 460"
  by code_simp+

text \<open>
  The claim as stated fails: no method rejects a negative amount. After signing up,
  logging in and calling \<open>addMoney(-1)\<close> the dollar balance is \<open>-1\<close>.
\<close>

theorem addMoney_reaches_negative_balance:
  "state_nonneg empty_state \<and>
   map_option dollarBalance
     (wallets (run empty_state
        [Signup ''u1'' ''alice@example.org'' (units ''secret'') ''alice'',
         Login ''alice@example.org'' (units ''secret''),
         AddMoney (Fin (- 1))]) ''u1'') = Some (Fin (- 1)) \<and>
   \<not> nonneg (Fin (- 1))"
proof -
  have "run empty_state
        [Signup ''u1'' ''alice@example.org'' (units ''secret'') ''alice'',
         Login ''alice@example.org'' (units ''secret''),
         AddMoney (Fin (- 1))] = snd (addMoney signed_up (Fin (- 1)))"
    by (simp add: signed_up_def)
  moreover have
    "map_option dollarBalance (wallets (snd (addMoney signed_up (Fin (- 1)))) ''u1'') =
      Some (Fin (- 1))"
    by (simp add: addMoney_def getWallet_current [OF signed_up_facts(1)] signed_up_facts(2)
        example_run_arith del: jadd.simps)
  ultimately show ?thesis
    using empty_state_ok(1) by (simp add: nonneg_def)
qed

text \<open>
  A run within the conditions: the end-to-end scenario of the specification, then an
  administrator's override. The amount is the binary64 value of 0.01.
\<close>

theorem nonneg_preserved_witness:
  "state_nonneg empty_state \<and> ids_ok empty_state \<and>
   run_ok empty_state
     [Signup ''u1'' ''alice@example.org'' (units ''secret'') ''alice'',
      Login ''alice@example.org'' (units ''secret''),
      AddMoney (Fin 1000),
      BuyAsset ''BTC'' (Fin (5764607523034235 / 576460752303423488)) (Some (Fin 45000)),
      SellAsset ''BTC'' (Fin (5764607523034235 / 576460752303423488)) (Some (Fin 46000)),
      AdminSetBalance ''u1'' ''ETH'' (Fin 2)] \<and>
   state_nonneg (run empty_state
     [Signup ''u1'' ''alice@example.org'' (units ''secret'') ''alice'',
      Login ''alice@example.org'' (units ''secret''),
      AddMoney (Fin 1000),
      BuyAsset ''BTC'' (Fin (5764607523034235 / 576460752303423488)) (Some (Fin 45000)),
      SellAsset ''BTC'' (Fin (5764607523034235 / 576460752303423488)) (Some (Fin 46000)),
      AdminSetBalance ''u1'' ''ETH'' (Fin 2)])"
proof -
  have names: "\<not> inherited ''u1''"
    by (simp add: inherited_def inherited_names_def)
  have ok: "run_ok empty_state
     [Signup ''u1'' ''alice@example.org'' (units ''secret'') ''alice'',
      Login ''alice@example.org'' (units ''secret''),
      AddMoney (Fin 1000),
      BuyAsset ''BTC'' (Fin (5764607523034235 / 576460752303423488)) (Some (Fin 45000)),
      SellAsset ''BTC'' (Fin (5764607523034235 / 576460752303423488)) (Some (Fin 46000)),
      AdminSetBalance ''u1'' ''ETH'' (Fin 2)]"
    by (simp add: fin_nonneg_def nonneg_def unit_price_def truthy_num_def names
        demo_not_inherited example_run_arith del: jmul.simps)
  show ?thesis
    using nonneg_preserved [OF empty_state_ok ok] empty_state_ok ok by simp
qed

subsection \<open>Positions with balance zero\<close>

text \<open>
  C3. \<open>sendMoney\<close> does not remove a position it has emptied: after the first user
  has sent all 10 BTC, the BTC position is still in the wallet, with balance 0 and
  the old average cost. \<open>sellAsset\<close> and \<open>swapAssets\<close> end with
  \<open>if (asset.balance === 0) delete wallet.assets[assetId]\<close>; \<open>sendMoney\<close> has no
  such statement.
\<close>

lemma demo_zero_arith:
  "jsub (Fin 10) (Fin 10) = Fin 0"
  "jadd (Fin 0) (Fin 10) = Fin 10"
  "jmul (Fin 45000) (Fin 10) = Fin 450000"
  "jadd (Fin 1000) (Fin 450000) = Fin 451000"
  by code_simp+

theorem sendMoney_keeps_emptied_position:
  "fst (sendMoney demo_state ''bob'' (Fin 10) ''BTC'' (Some (units ''1234''))) =
     Inr (\<lparr>tx_userId = ''a1'', tx_type = ''send'', tx_asset = ''BTC'', tx_amount = Fin 10,
           tx_counterparty = Some ''bob'', tx_status = ''completed'', tx_metadata = NoMeta\<rparr>,
          \<lparr>tx_userId = ''b1'', tx_type = ''receive'', tx_asset = ''BTC'', tx_amount = Fin 10,
           tx_counterparty = Some ''alice'', tx_status = ''completed'', tx_metadata = NoMeta\<rparr>) \<and>
   map_option (\<lambda>w. assets w ''BTC'')
     (wallets (snd (sendMoney demo_state ''bob'' (Fin 10) ''BTC'' (Some (units ''1234'')))) ''a1'') =
     Some (Some \<lparr>balance = Fin 0, averageCost = Fin 100\<rparr>)"
proof -
  have gate: "fst (pin_gate demo_state (user_id demo_alice) (Some (units ''1234''))) = Inr True"
    using demo_gate by (simp add: demo_current)
  show ?thesis
    unfolding sendMoney_after_gate [OF demo_current(1) gate]
    by (simp add: demo_current demo_users demo_wallets held_def position_or_new_def Let_def
        demo_zero_arith send_records_result(1) [of _ demo_alice] del: jadd.simps)
qed

text \<open>In general: whatever the amount, the sender still holds a position afterwards.\<close>

lemma sendMoney_keeps_position:
  assumes ok: "fst (sendMoney s r x a pin) = Inr t"
    and cu: "currentUser s = Some cu"
    and a: "a \<noteq> ''USD''"
  shows "\<exists>w' q. wallets (snd (sendMoney s r x a pin)) (user_id cu) = Some w' \<and>
           assets w' a = Some q"
proof -
  note run = sendMoney_after_gate [OF cu sendMoney_success_gate [OF cu ok], of r x a]
  from ok obtain rc where rc: "find_by_username (users s) r = Some rc"
    unfolding run by (auto split: option.splits)
  from ok obtain w where w: "wallets s (user_id cu) = Some w"
    unfolding run by (auto simp: rc split: option.splits)
  have enough: "\<not> (jlt (held w a) x \<or> (a \<noteq> ''USD'' \<and> assets w a = None))"
    using ok unfolding run by (auto simp: rc w split: if_splits)
  let ?w1 = "w\<lparr>assets := (assets w)(a \<mapsto>
                    (position_or_new (assets w) a)\<lparr>balance := jsub (held w a) x\<rparr>)\<rparr>"
  let ?m1 = "(wallets s)(user_id cu \<mapsto> ?w1)"
  from ok obtain rw where rw: "?m1 (user_id rc) = Some rw"
    unfolding run using enough a by (auto simp: rc w Let_def split: option.splits)
  let ?rw1 = "rw\<lparr>assets := (assets rw)(a \<mapsto>
                     (position_or_new (assets rw) a)\<lparr>balance := jadd (held rw a) x\<rparr>)\<rparr>"
  have wal: "wallets (snd (sendMoney s r x a pin)) = ?m1(user_id rc \<mapsto> ?rw1)"
    unfolding run using enough a rw by (auto simp: rc w Let_def)
  show ?thesis
  proof (cases "user_id rc = user_id cu")
    case True
    then show ?thesis unfolding wal by simp
  next
    case False
    then show ?thesis unfolding wal by simp
  qed
qed

text \<open>The sibling methods remove the position they empty.\<close>

lemma sellAsset_removes_emptied_position:
  "map_option (\<lambda>w. assets w ''BTC'')
     (wallets (snd (sellAsset demo_state ''BTC'' (Fin 10) None)) ''a1'') = Some None"
  by (simp add: sellAsset_def demo_getWallet demo_wallets Let_def unit_price_def demo_prices
      demo_zero_arith del: jadd.simps jmul.simps)

lemma sellAsset_removes_at_zero:
  assumes "fst (sellAsset s a x p) = Inr t" "currentUser s = Some cu"
    "wallets s (user_id cu) = Some w" "assets w a = Some q" "jsub (balance q) x = Fin 0"
  shows "\<exists>w'. wallets (snd (sellAsset s a x p)) (user_id cu) = Some w' \<and> assets w' a = None"
  using assms
  by (auto simp: sellAsset_def getWallet_current [OF assms(2)] Let_def split: if_splits)

end
